theory Spec2Isabelle
  imports Main "HOL-Library.Word"
begin

unbundle bit_operations_syntax

section \<open>unicode.c: UTF-8 encoding and decoding\<close>

text \<open>
  Bytes are \<open>8 word\<close>. The type \<open>unicodechar\<close> is declared in unicode.h, which
  is not among the sources; it is taken as a 32-bit unsigned integer. No value
  computed below exceeds \<open>2 ^ 23\<close>, so the exact width does not matter.
  \<open>write_codepoint_as_utf8\<close> receives the code point as \<open>uint64_t\<close>.
\<close>

type_synonym byte = "8 word"
type_synonym unicodechar = "32 word"

definition is_utf8_start :: "byte \<Rightarrow> bool" where
  "is_utf8_start c =
     (if c AND 0xE0 = 0xC0 then True
      else if c AND 0xF0 = 0xE0 then True
      else if c AND 0xF8 = 0xF0 then True
      else False)"

definition utf8_char_len :: "byte \<Rightarrow> nat" where
  "utf8_char_len c =
     (if c AND 0xE0 = 0xC0 then 2
      else if c AND 0xF0 = 0xE0 then 3
      else if c AND 0xF8 = 0xF0 then 4
      else 1)"

text \<open>
  \<open>write_codepoint_as_utf8 codepoint surrogateunescape outbuflen\<close>: \<open>None\<close> is the
  C function's return value 0; \<open>Some bs\<close> is return value 1 with the \<open>*outlen\<close>
  bytes \<open>bs\<close> written at \<open>out[0..]\<close>. The NUL byte the C code appends when the
  buffer has room is not part of the \<open>*outlen\<close> bytes and is left out. The
  parameter \<open>surrogateunescape\<close> is never read by the C function.
  The lead bytes of the three- and four-byte forms are OR-ed with \<open>0xC0\<close>, as
  in the source.
\<close>

definition write_codepoint_as_utf8 :: "64 word \<Rightarrow> bool \<Rightarrow> int \<Rightarrow> byte list option" where
  "write_codepoint_as_utf8 codepoint surrogateunescape outbuflen =
     (if codepoint < 0x80 then
        (if outbuflen < 1 then None else Some [ucast codepoint])
      else if codepoint < 0x800 then
        (let byte2val = codepoint AND 0x3F;
             byte1val = drop_bit 6 (codepoint AND 0x7C0)
         in if outbuflen < 2 then None
            else Some [ucast (byte1val OR 0xC0), ucast (byte2val OR 0x80)])
      else if codepoint < 0x10000 then
        (let byte3val = codepoint AND 0x3F;
             byte2val = drop_bit 6 (codepoint AND 0xFC0);
             byte1val = drop_bit 12 (codepoint AND 0xF000)
         in if outbuflen < 3 then None
            else Some [ucast (byte1val OR 0xC0), ucast (byte2val OR 0x80),
                       ucast (byte3val OR 0x80)])
      else if codepoint < 0x200000 then
        (let byte4val = codepoint AND 0x3F;
             byte3val = drop_bit 6 (codepoint AND 0xFC0);
             byte2val = drop_bit 12 (codepoint AND 0x3F000);
             byte1val = drop_bit 18 (codepoint AND 0x1C0000)
         in if outbuflen < 4 then None
            else Some [ucast (byte1val OR 0xC0), ucast (byte2val OR 0x80),
                       ucast (byte3val OR 0x80), ucast (byte4val OR 0x80)])
      else None)"

text \<open>
  \<open>get_utf8_codepoint p\<close>: the list \<open>p\<close> is the input from the pointer \<open>p\<close> to
  its end and \<open>size\<close> is its length, as at the only call site
  (\<open>input + i\<close>, \<open>input_len - i\<close>). \<open>None\<close> is return value 0; \<open>Some (c, n)\<close> is
  return value 1 with \<open>*out = c\<close> and \<open>*outlen = n\<close>. Every read \<open>p ! k\<close> below is
  guarded by \<open>k < size\<close>, as in the source.
\<close>

definition get_utf8_codepoint :: "byte list \<Rightarrow> (unicodechar \<times> nat) option" where
  "get_utf8_codepoint p =
     (let size = length p in
      if size < 1 then None
      else if \<not> is_utf8_start (p ! 0) then
        (if p ! 0 > 127 then None else Some (ucast (p ! 0), 1))
      else if (p ! 0) AND 0xE0 = 0xC0 \<and> size \<ge> 2 then
        (if (p ! 1) AND 0xC0 \<noteq> 0x80 then None
         else if size \<ge> 3 \<and> (p ! 2) AND 0xC0 = 0x80 then None
         else
           (let c = push_bit 6 ((ucast (p ! 0) :: unicodechar) AND 0x1F)
                    + ((ucast (p ! 1) :: unicodechar) AND 0x3F)
            in if c \<le> 127 then None else Some (c, 2)))
      else if (p ! 0) AND 0xF0 = 0xE0 \<and> size \<ge> 3 then
        (if (p ! 1) AND 0xC0 \<noteq> 0x80 then None
         else if (p ! 2) AND 0xC0 \<noteq> 0x80 then None
         else if size \<ge> 4 \<and> (p ! 3) AND 0xC0 = 0x80 then None
         else
           (let c = push_bit 12 ((ucast (p ! 0) :: unicodechar) AND 0x1F)
                    + push_bit 6 ((ucast (p ! 1) :: unicodechar) AND 0x3F)
                    + ((ucast (p ! 2) :: unicodechar) AND 0x3F)
            in if c \<le> 0x7FF then None
               else if c \<ge> 0xD800 \<and> c \<le> 0xDFFF then None
               else Some (c, 3)))
      else if (p ! 0) AND 0xF8 = 0xF0 \<and> size \<ge> 4 then
        (if (p ! 1) AND 0xC0 \<noteq> 0x80 then None
         else if (p ! 2) AND 0xC0 \<noteq> 0x80 then None
         else if (p ! 3) AND 0xC0 \<noteq> 0x80 then None
         else if size \<ge> 5 \<and> (p ! 4) AND 0xC0 = 0x80 then None
         else
           (let c = push_bit 18 ((ucast (p ! 0) :: unicodechar) AND 0x1F)
                    + push_bit 12 ((ucast (p ! 1) :: unicodechar) AND 0x3F)
                    + push_bit 6 ((ucast (p ! 2) :: unicodechar) AND 0x3F)
                    + ((ucast (p ! 3) :: unicodechar) AND 0x3F)
            in if c \<le> 0xFFFF then None else Some (c, 4)))
      else None)"

definition is_valid_utf8_char :: "byte list \<Rightarrow> bool" where
  "is_valid_utf8_char p = (get_utf8_codepoint p \<noteq> None)"

datatype utf8_abort = AbortedInvalid | AbortedOutOfMemory

lemma get_utf8_codepoint_len:
  "get_utf8_codepoint p = Some (c, n) \<Longrightarrow> 0 < n \<and> n \<le> length p"
  by (cases p) (auto simp: get_utf8_codepoint_def Let_def split: if_splits)

text \<open>
  The decoding loop of \<open>utf8_to_utf32_ex\<close>, on the input from index \<open>i\<close> on;
  the result is the list of code points appended to \<open>temp_buf\<close>. \<open>None\<close> is the
  abort on an invalid byte when \<open>surrogatereplaceinvalid\<close> is off.
\<close>

function utf8_decode_loop :: "bool \<Rightarrow> byte list \<Rightarrow> unicodechar list option" where
  "utf8_decode_loop surrogatereplaceinvalid [] = Some []"
| "utf8_decode_loop surrogatereplaceinvalid (b # bs) =
     (case get_utf8_codepoint (b # bs) of
        None \<Rightarrow>
          (if \<not> surrogatereplaceinvalid then None
           else
             (let invalidbyte = (0xDC80 :: unicodechar) + ucast b
              in map_option (\<lambda>r. invalidbyte # r)
                   (utf8_decode_loop surrogatereplaceinvalid bs)))
      | Some (c, cbytes) \<Rightarrow>
          map_option (\<lambda>r. c # r)
            (utf8_decode_loop surrogatereplaceinvalid (drop cbytes (b # bs))))"
  by pat_completeness auto
termination
proof (relation "measure (\<lambda>(s, bs). length bs)")
  show "wf (measure (\<lambda>(s, bs). length bs))" by simp
next
  fix s :: bool and b :: byte and bs :: "byte list"
  show "((s, bs), (s, b # bs)) \<in> measure (\<lambda>(s, bs). length bs)" by simp
next
  fix s :: bool and b :: byte and bs :: "byte list" and x2 :: "unicodechar \<times> nat"
    and c :: unicodechar and cbytes :: nat
  assume "get_utf8_codepoint (b # bs) = Some x2" and "(c, cbytes) = x2"
  then have "0 < cbytes" using get_utf8_codepoint_len [of "b # bs" c cbytes] by simp
  then show "((s, drop cbytes (b # bs)), (s, b # bs)) \<in> measure (\<lambda>(s, bs). length bs)"
    by simp
qed

text \<open>
  \<open>utf8_to_utf32_ex input surrogatereplaceinvalid temp_ok result_ok\<close>: the two
  booleans say whether the allocation of the temporary buffer and of the
  result succeed. \<open>Inl\<close> carries which of \<open>*was_aborted_invalid\<close> and
  \<open>*was_aborted_outofmemory\<close> is set when the C function returns NULL.
\<close>

definition utf8_to_utf32_ex ::
  "byte list \<Rightarrow> bool \<Rightarrow> bool \<Rightarrow> bool \<Rightarrow> utf8_abort + unicodechar list" where
  "utf8_to_utf32_ex input surrogatereplaceinvalid temp_ok result_ok =
     (if \<not> temp_ok then Inl AbortedOutOfMemory
      else
        (case utf8_decode_loop surrogatereplaceinvalid input of
           None \<Rightarrow> Inl AbortedInvalid
         | Some out \<Rightarrow> if \<not> result_ok then Inl AbortedOutOfMemory else Inr out))"

definition utf8_to_utf32 :: "byte list \<Rightarrow> bool \<Rightarrow> bool \<Rightarrow> utf8_abort + unicodechar list" where
  "utf8_to_utf32 input temp_ok result_ok = utf8_to_utf32_ex input True temp_ok result_ok"

text \<open>
  \<open>utf32_to_utf8 input outbuflen surrogateunescape\<close>: \<open>None\<close> is return value 0,
  \<open>Some bs\<close> is return value 1 with the \<open>*out_len\<close> bytes written to \<open>outbuf\<close>.
\<close>

fun utf32_to_utf8 :: "unicodechar list \<Rightarrow> int \<Rightarrow> bool \<Rightarrow> byte list option" where
  "utf32_to_utf8 [] outbuflen surrogateunescape = Some []"
| "utf32_to_utf8 (c # cs) outbuflen surrogateunescape =
     (case write_codepoint_as_utf8 (ucast c) surrogateunescape outbuflen of
        None \<Rightarrow> None
      | Some bs \<Rightarrow>
          map_option (\<lambda>r. bs @ r)
            (utf32_to_utf8 cs (outbuflen - int (length bs)) surrogateunescape))"

section \<open>Value contents (bytecode.h)\<close>

text \<open>
  Modelled from the spec: bytecode.h, which declares \<open>valuecontent\<close> and the
  \<open>H64VALTYPE_*\<close> tags, is not among the sources. Section 3.2 of the spec lists
  the variants; a GC value is referred to by its address in the heap pool
  (\<open>None\<close>: the NULL pointer), and a preallocated constant string carries its
  code points. A slot filled with
  zero bytes by \<open>memset\<close> is taken to be the first variant, \<open>NONE\<close>.
\<close>

datatype valuecontent =
    H64VALTYPE_NONE
  | H64VALTYPE_BOOL int
  | H64VALTYPE_INT64 int
  | H64VALTYPE_FLOAT64 int
  | H64VALTYPE_GCVAL "nat option"
  | H64VALTYPE_CONSTPREALLOCSTR "unicodechar list"

definition is_constpreallocstr :: "valuecontent \<Rightarrow> bool" where
  "is_constpreallocstr vc = (case vc of H64VALTYPE_CONSTPREALLOCSTR _ \<Rightarrow> True | _ \<Rightarrow> False)"

section \<open>stack.c: the value stack\<close>

text \<open>
  The constants \<open>ALLOC_OVERSHOOT\<close>, \<open>ALLOC_MAXOVERSHOOT\<close> and
  \<open>ALLOC_EMERGENCY_MARGIN\<close> come from stack.h, which is not among the sources;
  they are parameters of the model.

  \<open>entry\<close> holds the \<open>entry_count\<close> live slots of the C array; the slots between
  \<open>entry_count\<close> and \<open>alloc_count\<close> are allocated but hold no value the program
  may read. \<open>realloc\<close> keeps the contents of the live slots; whether it
  succeeds is an input of the model. Sizes are \<open>int64_t\<close> in the source and
  unbounded integers here: sizes close to \<open>2 ^ 63\<close> are not modelled.
\<close>

record stack_config =
  ALLOC_OVERSHOOT :: int
  ALLOC_MAXOVERSHOOT :: int
  ALLOC_EMERGENCY_MARGIN :: int

record h64stack =
  entry_count :: int
  alloc_count :: int
  entry :: "valuecontent list"
  current_func_floor :: int

datatype stack_error = StackAssertFailed | StackOutOfBounds

definition stack_New :: h64stack where
  "stack_New = \<lparr>entry_count = 0, alloc_count = 0, entry = [], current_func_floor = 0\<rparr>"

text \<open>
  \<open>stack_FreeEntry\<close> asserts that the slot is not a preallocated constant
  string and then frees what the slot owns; it changes nothing that the model
  keeps. \<open>True\<close> means that the assertion holds.
\<close>

definition stack_FreeEntry :: "h64stack \<Rightarrow> int \<Rightarrow> bool" where
  "stack_FreeEntry st slot = (\<not> is_constpreallocstr (entry st ! nat slot))"

text \<open>
  \<open>stack_Shrink st total_entries realloc_ok\<close>. The loop frees the slots
  \<open>entry_count - 1\<close> down to \<open>total_entries\<close>; a negative \<open>total_entries\<close> would
  make it read below the array.
\<close>

definition stack_Shrink :: "stack_config \<Rightarrow> h64stack \<Rightarrow> int \<Rightarrow> bool \<Rightarrow> stack_error + h64stack" where
  "stack_Shrink cfg st total_entries realloc_ok =
     (if total_entries < entry_count st \<and> total_entries < 0 then Inl StackOutOfBounds
      else if list_ex is_constpreallocstr (drop (nat total_entries) (entry st))
        then Inl StackAssertFailed
      else
        (let i = (if entry_count st > total_entries then total_entries else entry_count st);
             st1 = st\<lparr>entry_count := i, entry := take (nat i) (entry st)\<rparr>
         in if alloc_count st1 + ALLOC_MAXOVERSHOOT cfg > entry_count st1 then
              (let new_alloc = entry_count st1 + ALLOC_OVERSHOOT cfg
               in if \<not> realloc_ok then Inr st1
                  else Inr (st1\<lparr>alloc_count := new_alloc\<rparr>))
            else Inr st1))"

text \<open>
  \<open>stack_ToSize st total_entries can_use_emergency_margin grow_ok shrink_ok\<close>:
  \<open>grow_ok\<close> and \<open>shrink_ok\<close> say whether the \<open>realloc\<close> in this function and
  the one in \<open>stack_Shrink\<close> succeed. The result is the return value (0 or 1)
  and the stack; a failed \<open>assert\<close> is \<open>Inl StackAssertFailed\<close>.
\<close>

definition stack_ToSize ::
  "stack_config \<Rightarrow> h64stack \<Rightarrow> int \<Rightarrow> bool \<Rightarrow> bool \<Rightarrow> bool \<Rightarrow> stack_error + (int \<times> h64stack)" where
  "stack_ToSize cfg st total_entries can_use_emergency_margin grow_ok shrink_ok =
     (if \<not> total_entries \<ge> 0 then Inl StackAssertFailed
      else
        (let alloc_needed_margin =
               (if can_use_emergency_margin then 0 else ALLOC_EMERGENCY_MARGIN cfg);
             grown =
               (if alloc_count st < total_entries + alloc_needed_margin then
                  (if \<not> grow_ok then
                     (if \<not> can_use_emergency_margin \<or> total_entries > alloc_count st
                      then None else Some st)
                   else Some (st\<lparr>alloc_count :=
                          total_entries + alloc_needed_margin + ALLOC_OVERSHOOT cfg\<rparr>))
                else Some st)
         in case grown of
              None \<Rightarrow> Inr (0, st)
            | Some st1 \<Rightarrow>
                if total_entries < entry_count st1 then
                  (case stack_Shrink cfg st1 total_entries shrink_ok of
                     Inl e \<Rightarrow> Inl e
                   | Inr st2 \<Rightarrow> Inr (1, st2))
                else if \<not> alloc_count st1 > total_entries then Inl StackAssertFailed
                else
                  Inr (1, st1\<lparr>entry := entry st1 @
                                 replicate (nat (total_entries - entry_count st1)) H64VALTYPE_NONE,
                              entry_count := total_entries\<rparr>)))"

text \<open>
  A sequence of \<open>stack_ToSize\<close> calls, each with its size, its margin flag and
  the outcomes of its two \<open>realloc\<close>s. A call that returns 0 leaves the stack
  as it was and the sequence goes on; a failed assertion ends it.
\<close>

record tosize_call =
  call_size :: int
  call_emergency :: bool
  call_grow_ok :: bool
  call_shrink_ok :: bool

fun stack_ToSize_seq :: "stack_config \<Rightarrow> h64stack \<Rightarrow> tosize_call list \<Rightarrow> stack_error + h64stack" where
  "stack_ToSize_seq cfg st [] = Inr st"
| "stack_ToSize_seq cfg st (c # cs) =
     (case stack_ToSize cfg st (call_size c) (call_emergency c) (call_grow_ok c) (call_shrink_ok c) of
        Inl e \<Rightarrow> Inl e
      | Inr (r, st1) \<Rightarrow> stack_ToSize_seq cfg st1 cs)"

text \<open>The live slots are exactly \<open>entry_count\<close> many, within the allocation.\<close>

definition stack_wf :: "h64stack \<Rightarrow> bool" where
  "stack_wf st = (0 \<le> entry_count st \<and> entry_count st \<le> alloc_count st
                  \<and> int (length (entry st)) = entry_count st)"

definition stack_config_ok :: "stack_config \<Rightarrow> bool" where
  "stack_config_ok cfg = (0 < ALLOC_OVERSHOOT cfg \<and> 0 \<le> ALLOC_MAXOVERSHOOT cfg
                          \<and> 0 \<le> ALLOC_EMERGENCY_MARGIN cfg)"

text \<open>A concrete configuration, stack and call sequence.\<close>

definition example_stack_config :: stack_config where
  "example_stack_config = \<lparr>ALLOC_OVERSHOOT = 2, ALLOC_MAXOVERSHOOT = 8, ALLOC_EMERGENCY_MARGIN = 1\<rparr>"

definition example_tosize_calls :: "tosize_call list" where
  "example_tosize_calls =
     [\<lparr>call_size = 4, call_emergency = False, call_grow_ok = True, call_shrink_ok = True\<rparr>,
      \<lparr>call_size = 9, call_emergency = False, call_grow_ok = True, call_shrink_ok = True\<rparr>,
      \<lparr>call_size = 13, call_emergency = True, call_grow_ok = False, call_shrink_ok = True\<rparr>,
      \<lparr>call_size = 6, call_emergency = False, call_grow_ok = True, call_shrink_ok = False\<rparr>,
      \<lparr>call_size = 3, call_emergency = False, call_grow_ok = True, call_shrink_ok = True\<rparr>]"

definition example_stack :: h64stack where
  "example_stack = \<lparr>entry_count = 3, alloc_count = 4,
     entry = [H64VALTYPE_INT64 7, H64VALTYPE_BOOL 1, H64VALTYPE_GCVAL (Some 0)], current_func_floor = 0\<rparr>"

definition example_stack_final :: h64stack where
  "example_stack_final = \<lparr>entry_count = 3, alloc_count = 5,
     entry = [H64VALTYPE_INT64 7, H64VALTYPE_BOOL 1, H64VALTYPE_GCVAL (Some 0)], current_func_floor = 0\<rparr>"

section \<open>bytecode.c: the program object\<close>

subsection \<open>Data\<close>

text \<open>
  The structs are declared in bytecode.h and debugsymbols.h, which are not
  among the sources; the records below hold the fields that bytecode.c reads
  and writes. \<open>H64CLASS_HASH_SIZE\<close> and \<open>H64CLASS_MAX_METHODS\<close> (bytecode.h) and
  the function \<open>uri_Normalize\<close> (uri.c) are parameters of the model;
  \<open>uri_Normalize\<close> returns \<open>None\<close> where the C function returns NULL.

  An array that the C code keeps with a count (\<open>func\<close>, \<open>classes\<close>, \<open>globalvar\<close>,
  the symbol tables, the method and variable tables of a class, \<open>fileuri\<close>) is
  the list of its first count entries: the slot at index count, which a
  registration prepares before it increments the count, is no part of the
  list. A bucket of a class's member hashmap has no count; it is the whole
  allocated array, sentinel and uninitialised slots included.
\<close>

record program_config =
  H64CLASS_HASH_SIZE :: int
  H64CLASS_MAX_METHODS :: int
  uri_Normalize :: "string \<Rightarrow> string option"

record h64classmemberinfo =
  nameid :: int
  methodorvaridx :: int

record h64class =
  base_class_global_id :: int
  methods_count :: int
  method_global_name_idx :: "int list"
  method_func_idx :: "int list"
  vars_count :: int
  vars_global_name_idx :: "int list"
  hasvarinitfunc :: bool
  global_name_to_member_hashmap :: "h64classmemberinfo list list"

text \<open>
  The instructions of a function. Only \<open>setconst\<close> has a body in vmexec.c;
  the other instruction types are kept by their tag.
\<close>

datatype instructiontype =
    H64INST_INVALID | H64INST_SETCONST | H64INST_SETGLOBAL | H64INST_GETGLOBAL
  | H64INST_GETFUNC | H64INST_GETCLASS | H64INST_VALUECOPY | H64INST_BINOP
  | H64INST_UNOP | H64INST_CALL | H64INST_SETTOP | H64INST_RETURNVALUE
  | H64INST_JUMPTARGET | H64INST_CONDJUMP | H64INST_JUMP | H64INST_NEWITERATOR
  | H64INST_ITERATE | H64INST_PUSHCATCHFRAME | H64INST_ADDCATCHTYPEBYREF
  | H64INST_ADDCATCHTYPE | H64INST_POPCATCHFRAME | H64INST_GETMEMBER
  | H64INST_JUMPTOFINALLY | H64INST_NEWLIST | H64INST_ADDTOLIST | H64INST_NEWSET
  | H64INST_ADDTOSET | H64INST_NEWVECTOR | H64INST_PUTVECTOR | H64INST_NEWMAP
  | H64INST_PUTMAP

datatype h64instruction =
    Inst_setconst int valuecontent
  | Inst_other instructiontype

record h64func =
  input_stack_size :: int
  is_threadable :: int
  iscfunc :: bool
  associated_class_index :: int
  cfunclookup :: "string option"
  cfunc_ptr :: "nat option"
  instructions :: "h64instruction list"

record h64globalvar =
  content :: valuecontent

record h64funcsymbol =
  fs_name :: "string option"
  fs_fileuri_index :: int
  fs_arg_count :: int
  fs_arg_kwarg_name :: "string option list"
  fs_last_arg_is_multiarg :: bool
  fs_has_self_arg :: bool
  fs_global_id :: int

record h64classsymbol =
  cs_name :: string
  cs_fileuri_index :: int

record h64globalvarsymbol =
  gs_name :: string
  gs_fileuri_index :: int
  gs_is_const :: bool

record h64modulesymbols =
  ms_index :: int
  module_path :: "string option"
  library_name :: "string option"
  func_symbols :: "h64funcsymbol list"
  classes_symbols :: "h64classsymbol list"
  globalvar_symbols :: "h64globalvarsymbol list"
  func_name_to_entry :: "string \<rightharpoonup> nat"
  class_name_to_entry :: "string \<rightharpoonup> nat"
  globalvar_name_to_entry :: "string \<rightharpoonup> nat"

record h64debugsymbols =
  fileuri :: "string list"
  modules :: "h64modulesymbols list"
  member_names :: "string list"
  func_id_to_module_symbols_index :: "int \<rightharpoonup> nat"
  func_id_to_module_symbols_func_subindex :: "int \<rightharpoonup> nat"
  class_id_to_module_symbols_index :: "int \<rightharpoonup> nat"
  class_id_to_module_symbols_class_subindex :: "int \<rightharpoonup> nat"
  mainfile_module_path :: "string option"
  mainfileuri_index :: int

record h64program =
  func :: "h64func list"
  classes :: "h64class list"
  globalvar :: "h64globalvar list"
  symbols :: h64debugsymbols
  main_func_index :: int
  globalinit_func_index :: int

text \<open>
  An error is what ends the C program or leaves its behaviour undefined: a
  failed \<open>assert\<close>, a read or write outside an array, an index into the member
  hashmap that is not a bucket.
\<close>

datatype prog_error =
    AssertFailed
  | OutOfBounds
  | BucketIndexOutOfRange int

text \<open>
  Allocation. Every \<open>malloc\<close>, \<open>realloc\<close> and \<open>strdup\<close>, and every call of a
  function of hash.c or debugsymbols.c that allocates, takes its outcome from
  the head of a list of booleans (\<open>False\<close>: the allocation fails); when the
  list is used up, allocations succeed.
\<close>

type_synonym outcomes = "bool list"

fun alloc :: "outcomes \<Rightarrow> bool \<times> outcomes" where
  "alloc [] = (True, [])"
| "alloc (b # bs) = (b, bs)"

subsection \<open>Collaborators from debugsymbols.c and hash.c\<close>

fun name_index :: "string list \<Rightarrow> string \<Rightarrow> nat option" where
  "name_index [] s = None"
| "name_index (x # xs) s = (if x = s then Some 0 else map_option Suc (name_index xs s))"

text \<open>
  Modelled from the spec: \<open>h64debugsymbols_MemberNameToMemberNameId\<close>
  (debugsymbols.c) is not among the sources. Section 3.4: member names are
  interned, an id is created once per name and ids grow; the id of a name is
  its position in \<open>member_names\<close>. The result is negative when the name has no id
  and none is to be created, or when creating it fails.
\<close>

definition h64debugsymbols_MemberNameToMemberNameId ::
  "h64debugsymbols \<Rightarrow> string \<Rightarrow> bool \<Rightarrow> outcomes \<Rightarrow> int \<times> h64debugsymbols \<times> outcomes" where
  "h64debugsymbols_MemberNameToMemberNameId syms name create orc =
     (case name_index (member_names syms) name of
        Some i \<Rightarrow> (int i, syms, orc)
      | None \<Rightarrow>
          if \<not> create then (-1, syms, orc)
          else
            (case alloc orc of
               (False, orc1) \<Rightarrow> (-1, syms, orc1)
             | (True, orc1) \<Rightarrow>
                 (int (length (member_names syms)),
                  syms\<lparr>member_names := member_names syms @ [name]\<rparr>, orc1)))"

subsection \<open>Class members\<close>

text \<open>
  C's \<open>%\<close> on \<open>int64_t\<close> truncates towards zero. (A zero divisor is undefined
  in C; \<open>H64CLASS_HASH_SIZE\<close> is positive wherever a result below depends on it.)
\<close>

definition c_rem :: "int \<Rightarrow> int \<Rightarrow> int" where
  "c_rem a b = sgn a * (\<bar>a\<bar> mod \<bar>b\<bar>)"

text \<open>
  The scan \<open>while (buckets[i].nameid >= 0)\<close> over a bucket, from index \<open>i\<close>:
  \<open>ScanFound i\<close> when the record at \<open>i\<close> has the name id looked for,
  \<open>ScanEnd i\<close> when the record at \<open>i\<close> is the first with a negative name id,
  \<open>ScanOverrun\<close> when the scan leaves the allocated array.
\<close>

datatype scan_result = ScanFound nat | ScanEnd nat | ScanOverrun

fun bucket_scan :: "h64classmemberinfo list \<Rightarrow> int \<Rightarrow> nat \<Rightarrow> scan_result" where
  "bucket_scan [] n i = ScanOverrun"
| "bucket_scan (r # rs) n i =
     (if nameid r \<ge> 0 then (if nameid r = n then ScanFound i else bucket_scan rs n (Suc i))
      else ScanEnd i)"

text \<open>
  \<open>realloc\<close> of a bucket to \<open>n\<close> records: the records that fit are kept, new
  slots hold whatever the memory held (\<open>junk\<close>).
\<close>

definition realloc_bucket ::
  "h64classmemberinfo list \<Rightarrow> nat \<Rightarrow> h64classmemberinfo \<Rightarrow> h64classmemberinfo list" where
  "realloc_bucket b n junk = take n b @ replicate (n - length b) junk"

definition set_class :: "h64program \<Rightarrow> nat \<Rightarrow> h64class \<Rightarrow> h64program" where
  "set_class p i c = p\<lparr>classes := (classes p)[i := c]\<rparr>"

text \<open>
  \<open>h64program_RegisterClassMemberEx p class_id name func_idx\<close>, with the
  contents of uninitialised memory \<open>junk\<close> and the allocation outcomes. The
  result is the return value (0 or 1), the program and the unused outcomes.
  \<open>p->symbols\<close> is never NULL in the model.
\<close>

definition h64program_RegisterClassMemberEx ::
  "program_config \<Rightarrow> h64program \<Rightarrow> int \<Rightarrow> string \<Rightarrow> int \<Rightarrow> h64classmemberinfo \<Rightarrow> outcomes
   \<Rightarrow> prog_error + (int \<times> h64program \<times> outcomes)" where
  "h64program_RegisterClassMemberEx cfg p class_id name func_idx junk orc =
     (case h64debugsymbols_MemberNameToMemberNameId (symbols p) name True orc of
        (nid, syms1, orc1) \<Rightarrow>
          let p1 = p\<lparr>symbols := syms1\<rparr> in
          if nid < 0 then Inr (0, p1, orc1)
          else if \<not> (class_id \<ge> 0 \<and> class_id < int (length (classes p1))) then Inl AssertFailed
          else
            let cls = classes p1 ! nat class_id;
                bucketindex = nat (c_rem nid (H64CLASS_HASH_SIZE cfg))
            in
            if \<not> bucketindex < length (global_name_to_member_hashmap cls) then Inl OutOfBounds
            else
              let buckets = global_name_to_member_hashmap cls ! bucketindex in
              (case bucket_scan buckets nid 0 of
                 ScanOverrun \<Rightarrow> Inl OutOfBounds
               | ScanFound i \<Rightarrow> Inr (0, p1, orc1)
               | ScanEnd buckets_count \<Rightarrow>
                   (case alloc orc1 of
                      (False, orc2) \<Rightarrow> Inr (0, p1, orc2)
                    | (True, orc2) \<Rightarrow>
                        let new_buckets = realloc_bucket buckets (buckets_count + 2) junk;
                            cls1 = cls\<lparr>global_name_to_member_hashmap :=
                                     (global_name_to_member_hashmap cls)[bucketindex := new_buckets]\<rparr>;
                            p2 = set_class p1 (nat class_id) cls1
                        in
                        if func_idx \<ge> 0 then
                          (if methods_count cls1 \<ge> H64CLASS_MAX_METHODS cfg then Inr (0, p2, orc2)
                           else
                             (case alloc orc2 of
                                (False, orc3) \<Rightarrow> Inr (0, p2, orc3)
                              | (True, orc3) \<Rightarrow>
                                  (case alloc orc3 of
                                     (False, orc4) \<Rightarrow> Inr (0, p2, orc4)
                                   | (True, orc4) \<Rightarrow>
                                       let cls2 = cls1\<lparr>
                                             method_global_name_idx :=
                                               take (nat (methods_count cls1)) (method_global_name_idx cls1) @ [nid],
                                             method_func_idx :=
                                               take (nat (methods_count cls1)) (method_func_idx cls1) @ [func_idx],
                                             methods_count := methods_count cls1 + 1\<rparr>;
                                           entry_idx = methods_count cls2 - 1;
                                           final_buckets = new_buckets
                                             [buckets_count + 1 := \<lparr>nameid = -1, methodorvaridx = -1\<rparr>,
                                              buckets_count := \<lparr>nameid = nid, methodorvaridx =
                                                (if func_idx > 0 then entry_idx
                                                 else H64CLASS_MAX_METHODS cfg + entry_idx)\<rparr>];
                                           cls3 = cls2\<lparr>global_name_to_member_hashmap :=
                                             (global_name_to_member_hashmap cls2)[bucketindex := final_buckets]\<rparr>
                                       in Inr (1, set_class p2 (nat class_id) cls3, orc4))))
                        else
                          (case alloc orc2 of
                             (False, orc3) \<Rightarrow> Inr (0, p2, orc3)
                           | (True, orc3) \<Rightarrow>
                               let cls2 = cls1\<lparr>
                                     vars_global_name_idx :=
                                       take (nat (vars_count cls1)) (vars_global_name_idx cls1) @ [nid],
                                     vars_count := vars_count cls1 + 1\<rparr>;
                                   entry_idx = vars_count cls2 - 1;
                                   final_buckets = new_buckets
                                     [buckets_count + 1 := \<lparr>nameid = -1, methodorvaridx = -1\<rparr>,
                                      buckets_count := \<lparr>nameid = nid, methodorvaridx =
                                        (if func_idx > 0 then entry_idx
                                         else H64CLASS_MAX_METHODS cfg + entry_idx)\<rparr>];
                                   cls3 = cls2\<lparr>global_name_to_member_hashmap :=
                                     (global_name_to_member_hashmap cls2)[bucketindex := final_buckets]\<rparr>
                               in Inr (1, set_class p2 (nat class_id) cls3, orc3)))))"


text \<open>
  \<open>h64program_LookupClassMember p class_id nameid\<close>: the result is the pair
  \<open>(*out_membervarid, *out_memberfuncid)\<close>. The bucket index is
  \<open>nameid % H64CLASS_HASH_SIZE\<close> with C's remainder; the function has no check
  of \<open>class_id\<close> or of the index, so an index outside the hashmap is a read
  outside the array.
\<close>

definition h64program_LookupClassMember ::
  "program_config \<Rightarrow> h64program \<Rightarrow> int \<Rightarrow> int \<Rightarrow> prog_error + (int \<times> int)" where
  "h64program_LookupClassMember cfg p class_id nid =
     (let bucketindex = c_rem nid (H64CLASS_HASH_SIZE cfg) in
      if \<not> (class_id \<ge> 0 \<and> class_id < int (length (classes p))) then Inl OutOfBounds
      else
        let hashmap = global_name_to_member_hashmap (classes p ! nat class_id) in
        if \<not> (bucketindex \<ge> 0 \<and> bucketindex < int (length hashmap))
          then Inl (BucketIndexOutOfRange bucketindex)
        else
          let buckets = hashmap ! nat bucketindex in
          (case bucket_scan buckets nid 0 of
             ScanOverrun \<Rightarrow> Inl OutOfBounds
           | ScanFound i \<Rightarrow>
               let result = methodorvaridx (buckets ! i) in
               if result < H64CLASS_MAX_METHODS cfg then Inr (-1, result)
               else Inr (result - H64CLASS_MAX_METHODS cfg, -1)
           | ScanEnd i \<Rightarrow> Inr (-1, -1)))"

text \<open>
  \<open>h64program_LookupClassMemberByname\<close>: when the name has no id, the C code
  stores -1 in both outputs and then goes on to the \<open>return\<close> statement, which
  calls \<open>h64program_LookupClassMember\<close> with the negative id; the outputs
  are whatever that call leaves.
\<close>

definition h64program_LookupClassMemberByname ::
  "program_config \<Rightarrow> h64program \<Rightarrow> int \<Rightarrow> string \<Rightarrow> prog_error + (int \<times> int)" where
  "h64program_LookupClassMemberByname cfg p class_id name =
     (case h64debugsymbols_MemberNameToMemberNameId (symbols p) name False [] of
        (nid, syms1, orc1) \<Rightarrow>
          if nid < 0 then h64program_LookupClassMember cfg p class_id nid
          else h64program_LookupClassMember cfg p class_id nid)"

subsection \<open>File URIs and modules\<close>

text \<open>
  \<open>bytecode_fileuriindex p fileuri\<close>. The search loop is
  \<open>k = 0; while (k > fileuri_count) ...\<close>: its condition is false at the first
  test, since \<open>fileuri_count\<close> is the length of a list, so the body (which would
  read \<open>fileuri[k]\<close> beyond the array) never runs and \<open>fileuriindex\<close> stays -1.
\<close>

definition fileuri_search :: "string list \<Rightarrow> string \<Rightarrow> prog_error + int" where
  "fileuri_search uris normalized_uri =
     (let k = (0 :: int) in
      if k > int (length uris) then Inl OutOfBounds else Inr (-1))"

definition bytecode_fileuriindex ::
  "program_config \<Rightarrow> h64program \<Rightarrow> string \<Rightarrow> outcomes \<Rightarrow> prog_error + (int \<times> h64program \<times> outcomes)" where
  "bytecode_fileuriindex cfg p uri orc =
     (case uri_Normalize cfg uri of
        None \<Rightarrow> Inr (-1, p, orc)
      | Some normalized_uri \<Rightarrow>
          (case fileuri_search (fileuri (symbols p)) normalized_uri of
             Inl e \<Rightarrow> Inl e
           | Inr fileuriindex \<Rightarrow>
               if fileuriindex < 0 then
                 (case alloc orc of
                    (False, orc1) \<Rightarrow> Inr (-1, p, orc1)
                  | (True, orc1) \<Rightarrow>
                      Inr (int (length (fileuri (symbols p))),
                           p\<lparr>symbols := (symbols p)\<lparr>fileuri :=
                                fileuri (symbols p) @ [normalized_uri]\<rparr>\<rparr>,
                           orc1))
               else Inr (fileuriindex, p, orc)))"

fun module_index :: "h64modulesymbols list \<Rightarrow> string option \<Rightarrow> string option \<Rightarrow> nat option" where
  "module_index [] mp lib = None"
| "module_index (x # xs) mp lib =
     (if module_path x = mp \<and> library_name x = lib then Some 0
      else map_option Suc (module_index xs mp lib))"

text \<open>
  Modelled from the spec: \<open>h64debugsymbols_GetModule\<close> and
  \<open>h64debugsymbols_GetBuiltinModule\<close> (debugsymbols.c) are not among the
  sources. Sections 3.4 and 4.A: there is one record per module path and
  library, created (empty) if absent when asked for, and one distinguished
  builtin module, which is the record with no module path. The result is the
  position of the record in \<open>modules\<close>, \<open>None\<close> for NULL.
\<close>

definition h64debugsymbols_GetModule ::
  "h64debugsymbols \<Rightarrow> string \<Rightarrow> string option \<Rightarrow> bool \<Rightarrow> outcomes
   \<Rightarrow> nat option \<times> h64debugsymbols \<times> outcomes" where
  "h64debugsymbols_GetModule syms mp lib create orc =
     (case module_index (modules syms) (Some mp) lib of
        Some i \<Rightarrow> (Some i, syms, orc)
      | None \<Rightarrow>
          if \<not> create then (None, syms, orc)
          else
            (case alloc orc of
               (False, orc1) \<Rightarrow> (None, syms, orc1)
             | (True, orc1) \<Rightarrow>
                 (Some (length (modules syms)),
                  syms\<lparr>modules := modules syms @
                    [\<lparr>ms_index = int (length (modules syms)), module_path = Some mp,
                      library_name = lib, func_symbols = [], classes_symbols = [],
                      globalvar_symbols = [], func_name_to_entry = Map.empty,
                      class_name_to_entry = Map.empty,
                      globalvar_name_to_entry = Map.empty\<rparr>]\<rparr>,
                  orc1)))"

definition h64debugsymbols_GetBuiltinModule :: "h64debugsymbols \<Rightarrow> nat option" where
  "h64debugsymbols_GetBuiltinModule syms = module_index (modules syms) None None"

text \<open>
  The block that the three registration functions share:
  \<open>if (module_path) { msymbols = GetModule(..., 1); if (!msymbols) return -1; }
   else { assert(library_name == NULL); msymbols = GetBuiltinModule(...);
          assert(msymbols != NULL); }\<close>.
  \<open>Inr (None, ...)\<close> is the \<open>return -1\<close>.
\<close>

definition get_msymbols ::
  "h64program \<Rightarrow> string option \<Rightarrow> string option \<Rightarrow> outcomes
   \<Rightarrow> prog_error + (nat option \<times> h64program \<times> outcomes)" where
  "get_msymbols p mp lib orc =
     (case mp of
        Some path \<Rightarrow>
          (case h64debugsymbols_GetModule (symbols p) path lib True orc of
             (r, syms1, orc1) \<Rightarrow> Inr (r, p\<lparr>symbols := syms1\<rparr>, orc1))
      | None \<Rightarrow>
          if lib \<noteq> None then Inl AssertFailed
          else
            (case h64debugsymbols_GetBuiltinModule (symbols p) of
               None \<Rightarrow> Inl AssertFailed
             | Some i \<Rightarrow> Inr (Some i, p, orc)))"

definition set_module :: "h64program \<Rightarrow> nat \<Rightarrow> h64modulesymbols \<Rightarrow> h64program" where
  "set_module p i ms = p\<lparr>symbols := (symbols p)\<lparr>modules := (modules (symbols p))[i := ms]\<rparr>\<rparr>"

text \<open>
  Modelled from the spec: hash.c is not among the sources. A string map and an
  integer map are partial functions; \<open>hash_StringMapSet\<close> and \<open>hash_IntMapSet\<close>
  store the value under the key, replacing an earlier one, and return 0 with
  the map as it was when they cannot allocate; \<open>hash_StringMapUnset\<close> and
  \<open>hash_IntMapUnset\<close> remove the key.
\<close>

definition hash_MapSet :: "('k \<rightharpoonup> nat) \<Rightarrow> 'k \<Rightarrow> nat \<Rightarrow> outcomes \<Rightarrow> bool \<times> ('k \<rightharpoonup> nat) \<times> outcomes" where
  "hash_MapSet mp k v orc =
     (case alloc orc of
        (False, orc1) \<Rightarrow> (False, mp, orc1)
      | (True, orc1) \<Rightarrow> (True, mp(k \<mapsto> v), orc1))"

definition hash_MapUnset :: "('k \<rightharpoonup> nat) \<Rightarrow> 'k \<Rightarrow> ('k \<rightharpoonup> nat)" where
  "hash_MapUnset mp k = mp(k := None)"

subsection \<open>Global variables\<close>

text \<open>
  \<open>h64program_AddGlobalvar\<close>. The result is the return value (the new id, or
  -1), the program and the unused allocation outcomes. \<open>name\<close> is not NULL.
\<close>

definition h64program_AddGlobalvar ::
  "program_config \<Rightarrow> h64program \<Rightarrow> string \<Rightarrow> bool \<Rightarrow> string option \<Rightarrow> string option
   \<Rightarrow> string option \<Rightarrow> outcomes \<Rightarrow> prog_error + (int \<times> h64program \<times> outcomes)" where
  "h64program_AddGlobalvar cfg p name is_const uri mp lib orc =
     (case alloc orc of
        (False, orc1) \<Rightarrow> Inr (-1, p, orc1)
      | (True, orc1) \<Rightarrow>
          (case (case uri of
                   None \<Rightarrow> Inr (-1, p, orc1)
                 | Some u \<Rightarrow> bytecode_fileuriindex cfg p u orc1) of
             Inl e \<Rightarrow> Inl e
           | Inr (fileuriindex, p1, orc2) \<Rightarrow>
               if uri \<noteq> None \<and> fileuriindex < 0 then Inr (-1, p1, orc2)
               else
                 (case get_msymbols p1 mp lib orc2 of
                    Inl e \<Rightarrow> Inl e
                  | Inr (None, p2, orc3) \<Rightarrow> Inr (-1, p2, orc3)
                  | Inr (Some mi, p2, orc3) \<Rightarrow>
                      (case alloc orc3 of
                         (False, orc4) \<Rightarrow> Inr (-1, p2, orc4)
                       | (True, orc4) \<Rightarrow>
                           (case alloc orc4 of
                              (False, orc5) \<Rightarrow> Inr (-1, p2, orc5)
                            | (True, orc5) \<Rightarrow>
                                let msymbols = modules (symbols p2) ! mi;
                                    sym = \<lparr>gs_name = name, gs_fileuri_index = fileuriindex,
                                           gs_is_const = is_const\<rparr>;
                                    setno = length (globalvar_symbols msymbols)
                                in
                                (case hash_MapSet (globalvar_name_to_entry msymbols) name setno orc5 of
                                   (False, tbl, orc6) \<Rightarrow> Inr (-1, p2, orc6)
                                 | (True, tbl, orc6) \<Rightarrow>
                                     let msymbols1 = msymbols\<lparr>
                                           globalvar_name_to_entry := tbl,
                                           globalvar_symbols := globalvar_symbols msymbols @ [sym]\<rparr>;
                                         p3 = set_module p2 mi msymbols1;
                                         p4 = p3\<lparr>globalvar := globalvar p3 @
                                                [\<lparr>content = H64VALTYPE_NONE\<rparr>]\<rparr>
                                     in Inr (int (length (globalvar p4)) - 1, p4, orc6)))))))"

subsection \<open>Functions\<close>

text \<open>
  The parts of \<open>h64program_RegisterCFunction\<close>, in the order of the source.

  \<open>RegisterCFunction_cfunclookup\<close> is the block \<open>if (func != NULL) { ... }\<close>
  that builds the lookup key. The buffer is allocated for the length of
  \<open>module_path\<close> when that is not NULL, but \<open>$$builtin\<close> is written when
  \<open>module_path\<close> is the empty string: a key longer than the buffer is a
  write outside it. \<open>Inr None\<close> is the \<open>return -1\<close> after a failed \<open>malloc\<close>.
\<close>

definition RegisterCFunction_cfunclookup ::
  "string option \<Rightarrow> nat option \<Rightarrow> string option \<Rightarrow> string option \<Rightarrow> outcomes
   \<Rightarrow> prog_error + (string option option \<times> outcomes)" where
  "RegisterCFunction_cfunclookup name fn mp lib orc =
     (case fn of
        None \<Rightarrow> Inr (Some None, orc)
      | Some f \<Rightarrow>
          (case name of
             None \<Rightarrow> Inl AssertFailed
           | Some n \<Rightarrow>
               (case alloc orc of
                  (False, orc1) \<Rightarrow> Inr (None, orc1)
                | (True, orc1) \<Rightarrow>
                    let allocated = (case mp of Some path \<Rightarrow> length path | None \<Rightarrow> length ''$$builtin'')
                                    + 1 + length n + length ''@lib:''
                                    + (case lib of Some l \<Rightarrow> length l | None \<Rightarrow> 0) + 1;
                        writemodpath = (if mp = None \<or> mp = Some [] then ''$$builtin'' else the mp);
                        key = writemodpath @ ''.'' @ n
                              @ (case lib of
                                   Some l \<Rightarrow> if length l > 0 then ''@lib:'' @ l else []
                                 | None \<Rightarrow> [])
                    in if length key + 1 > allocated then Inl OutOfBounds
                       else Inr (Some (Some key), orc1))))"

text \<open>
  The loop that copies the keyword argument names: one \<open>strdup\<close> for every
  name that is not NULL. \<open>False\<close>: a \<open>strdup\<close> failed.
\<close>

fun strdup_kwargs :: "string option list \<Rightarrow> outcomes \<Rightarrow> bool \<times> outcomes" where
  "strdup_kwargs [] orc = (True, orc)"
| "strdup_kwargs (None # ks) orc = strdup_kwargs ks orc"
| "strdup_kwargs (Some k # ks) orc =
     (case alloc orc of
        (False, orc1) \<Rightarrow> (False, orc1)
      | (True, orc1) \<Rightarrow> strdup_kwargs ks orc1)"

text \<open>
  The label \<open>funcsymboloom\<close>: the lookup key is freed, the name is removed from
  the module's name map, the entries of the two id maps under \<open>p->func_count\<close>
  are removed, the symbol slot is cleared; then \<open>return -1\<close>.
\<close>

definition funcsymboloom :: "h64program \<Rightarrow> string option \<Rightarrow> nat \<Rightarrow> h64program" where
  "funcsymboloom p name mi =
     (let msymbols = modules (symbols p) ! mi;
          p1 = (case name of
                  None \<Rightarrow> p
                | Some n \<Rightarrow> set_module p mi
                    (msymbols\<lparr>func_name_to_entry := hash_MapUnset (func_name_to_entry msymbols) n\<rparr>));
          syms = symbols p1
      in p1\<lparr>symbols := syms\<lparr>
           func_id_to_module_symbols_index :=
             hash_MapUnset (func_id_to_module_symbols_index syms) (int (length (func p1))),
           func_id_to_module_symbols_func_subindex :=
             hash_MapUnset (func_id_to_module_symbols_func_subindex syms) (int (length (func p1)))\<rparr>\<rparr>)"

text \<open>
  From the \<open>strdup\<close> of the name to the registration as a class member:
  every failure here jumps to \<open>funcsymboloom\<close>. \<open>Inr (False, ...)\<close> is that jump,
  with the program as it is when the jump is taken; \<open>Inr (True, ...)\<close> goes on
  to the function entry.
\<close>

definition RegisterCFunction_symbol ::
  "program_config \<Rightarrow> h64program \<Rightarrow> nat \<Rightarrow> string option \<Rightarrow> int \<Rightarrow> string option list option
   \<Rightarrow> int \<Rightarrow> h64classmemberinfo \<Rightarrow> outcomes \<Rightarrow> prog_error + (bool \<times> h64program \<times> outcomes)" where
  "RegisterCFunction_symbol cfg p mi name arg_count arg_kwarg_name associated_class_index_arg junk orc =
     (case (if name \<noteq> None then alloc orc else (True, orc)) of
        (False, orc1) \<Rightarrow> Inr (False, p, orc1)
      | (True, orc1) \<Rightarrow>
          (case (if arg_count > 0 then
                   (case alloc orc1 of
                      (False, orc2) \<Rightarrow> Inr (False, orc2)
                    | (True, orc2) \<Rightarrow>
                        (case arg_kwarg_name of
                           None \<Rightarrow> Inr (True, orc2)
                         | Some names \<Rightarrow>
                             if int (length names) < arg_count then Inl OutOfBounds
                             else Inr (strdup_kwargs (take (nat arg_count) names) orc2)))
                 else Inr (True, orc1)) of
             Inl e \<Rightarrow> Inl e
           | Inr (False, orc3) \<Rightarrow> Inr (False, p, orc3)
           | Inr (True, orc3) \<Rightarrow>
               let msymbols = modules (symbols p) ! mi;
                   setno = length (func_symbols msymbols)
               in
               (case (case name of
                        None \<Rightarrow> (True, func_name_to_entry msymbols, orc3)
                      | Some n \<Rightarrow> hash_MapSet (func_name_to_entry msymbols) n setno orc3) of
                  (False, tbl, orc4) \<Rightarrow> Inr (False, p, orc4)
                | (True, tbl, orc4) \<Rightarrow>
                    let p1 = set_module p mi (msymbols\<lparr>func_name_to_entry := tbl\<rparr>) in
                    (case hash_MapSet (func_id_to_module_symbols_index (symbols p1))
                            (int (length (func p1))) (nat (ms_index msymbols)) orc4 of
                       (False, tbl1, orc5) \<Rightarrow> Inr (False, p1, orc5)
                     | (True, tbl1, orc5) \<Rightarrow>
                         let p2 = p1\<lparr>symbols := (symbols p1)\<lparr>func_id_to_module_symbols_index := tbl1\<rparr>\<rparr> in
                         (case hash_MapSet (func_id_to_module_symbols_func_subindex (symbols p2))
                                 (int (length (func p2))) (length (func_symbols msymbols)) orc5 of
                            (False, tbl2, orc6) \<Rightarrow> Inr (False, p2, orc6)
                          | (True, tbl2, orc6) \<Rightarrow>
                              let p3 = p2\<lparr>symbols := (symbols p2)\<lparr>
                                         func_id_to_module_symbols_func_subindex := tbl2\<rparr>\<rparr> in
                              if associated_class_index_arg \<ge> 0 then
                                (case h64program_RegisterClassMemberEx cfg p3 associated_class_index_arg
                                        (the name) (int (length (func p3))) junk orc6 of
                                   Inl e \<Rightarrow> Inl e
                                 | Inr (r, p4, orc7) \<Rightarrow>
                                     if r = 0 then Inr (False, p4, orc7) else Inr (True, p4, orc7))
                              else Inr (True, p3, orc6))))))"

text \<open>
  \<open>h64program_RegisterCFunction\<close>. \<open>fn\<close> is the C function pointer (\<open>None\<close>:
  NULL), \<open>arg_kwarg_name\<close> the array of keyword names (\<open>None\<close>: NULL). The
  index that \<open>bytecode_fileuriindex\<close> returns is stored in a variable declared
  inside the \<open>if (fileuri)\<close> block; the variable \<open>fileuriindex\<close> that the
  symbol receives is the outer one, which stays -1.
\<close>

definition h64program_RegisterCFunction ::
  "program_config \<Rightarrow> h64program \<Rightarrow> string option \<Rightarrow> nat option \<Rightarrow> string option \<Rightarrow> int
   \<Rightarrow> string option list option \<Rightarrow> bool \<Rightarrow> string option \<Rightarrow> string option \<Rightarrow> int \<Rightarrow> int
   \<Rightarrow> h64classmemberinfo \<Rightarrow> outcomes \<Rightarrow> prog_error + (int \<times> h64program \<times> outcomes)" where
  "h64program_RegisterCFunction cfg p name fn uri arg_count arg_kwarg_name last_is_multiarg
       mp lib is_threadable_arg associated_class_index_arg junk orc =
     (if \<not> (name \<noteq> None \<or> associated_class_index_arg < 0) then Inl AssertFailed
      else
        (case alloc orc of
           (False, orc1) \<Rightarrow> Inr (-1, p, orc1)
         | (True, orc1) \<Rightarrow>
             let fileuriindex = (-1 :: int) in
             (case (case uri of
                      None \<Rightarrow> Inr (-1, p, orc1)
                    | Some u \<Rightarrow> bytecode_fileuriindex cfg p u orc1) of
                Inl e \<Rightarrow> Inl e
              | Inr (inner_fileuriindex, p1, orc2) \<Rightarrow>
                  if uri \<noteq> None \<and> inner_fileuriindex < 0 then Inr (-1, p1, orc2)
                  else
                    (case RegisterCFunction_cfunclookup name fn mp lib orc2 of
                       Inl e \<Rightarrow> Inl e
                     | Inr (None, orc3) \<Rightarrow> Inr (-1, p1, orc3)
                     | Inr (Some cfunclookup_val, orc3) \<Rightarrow>
                         (case get_msymbols p1 mp lib orc3 of
                            Inl e \<Rightarrow> Inl e
                          | Inr (None, p2, orc4) \<Rightarrow> Inr (-1, p2, orc4)
                          | Inr (Some mi, p2, orc4) \<Rightarrow>
                              (case alloc orc4 of
                                 (False, orc5) \<Rightarrow> Inr (-1, p2, orc5)
                               | (True, orc5) \<Rightarrow>
                                   (case RegisterCFunction_symbol cfg p2 mi name arg_count
                                           arg_kwarg_name associated_class_index_arg junk orc5 of
                                      Inl e \<Rightarrow> Inl e
                                    | Inr (False, p3, orc6) \<Rightarrow> Inr (-1, funcsymboloom p3 name mi, orc6)
                                    | Inr (True, p3, orc6) \<Rightarrow>
                                        let msymbols = modules (symbols p3) ! mi;
                                            f = \<lparr>input_stack_size =
                                                   arg_count + (if associated_class_index_arg \<ge> 0 then 1 else 0),
                                                 is_threadable = is_threadable_arg,
                                                 iscfunc = True,
                                                 associated_class_index = associated_class_index_arg,
                                                 cfunclookup = cfunclookup_val,
                                                 cfunc_ptr = fn,
                                                 instructions = []\<rparr>;
                                            sym = \<lparr>fs_name = name,
                                                   fs_fileuri_index = fileuriindex,
                                                   fs_arg_count = arg_count,
                                                   fs_arg_kwarg_name =
                                                     (if arg_count > 0 then
                                                        (case arg_kwarg_name of
                                                           None \<Rightarrow> replicate (nat arg_count) None
                                                         | Some names \<Rightarrow> take (nat arg_count) names)
                                                      else []),
                                                   fs_last_arg_is_multiarg = last_is_multiarg,
                                                   fs_has_self_arg = (associated_class_index_arg \<ge> 0),
                                                   fs_global_id = int (length (func p3))\<rparr>;
                                            p4 = set_module p3 mi
                                                   (msymbols\<lparr>func_symbols := func_symbols msymbols @ [sym]\<rparr>);
                                            p5 = p4\<lparr>func := func p4 @ [f]\<rparr>
                                        in Inr (int (length (func p5)) - 1, p5, orc6))))))))"

text \<open>
  \<open>h64program_RegisterHorse64Function\<close>: registered as a C function without a
  function pointer, then \<open>iscfunc\<close> is cleared.
\<close>

definition h64program_RegisterHorse64Function ::
  "program_config \<Rightarrow> h64program \<Rightarrow> string option \<Rightarrow> string option \<Rightarrow> int
   \<Rightarrow> string option list option \<Rightarrow> bool \<Rightarrow> string option \<Rightarrow> string option \<Rightarrow> int
   \<Rightarrow> h64classmemberinfo \<Rightarrow> outcomes \<Rightarrow> prog_error + (int \<times> h64program \<times> outcomes)" where
  "h64program_RegisterHorse64Function cfg p name uri arg_count arg_kwarg_name last_is_multiarg
       mp lib associated_class_idx junk orc =
     (case h64program_RegisterCFunction cfg p name None uri arg_count arg_kwarg_name
             last_is_multiarg mp lib (-1) associated_class_idx junk orc of
        Inl e \<Rightarrow> Inl e
      | Inr (idx, p1, orc1) \<Rightarrow>
          if idx \<ge> 0 then
            Inr (idx, p1\<lparr>func := (func p1)[nat idx := (func p1 ! nat idx)\<lparr>iscfunc := False\<rparr>]\<rparr>, orc1)
          else Inr (idx, p1, orc1))"

subsection \<open>Classes\<close>

text \<open>
  The loop of \<open>h64program_AddClass\<close> that allocates the buckets, each a single
  sentinel record. \<open>None\<close>: a \<open>malloc\<close> failed.
\<close>

fun alloc_buckets :: "nat \<Rightarrow> outcomes \<Rightarrow> h64classmemberinfo list list option \<times> outcomes" where
  "alloc_buckets 0 orc = (Some [], orc)"
| "alloc_buckets (Suc n) orc =
     (case alloc orc of
        (False, orc1) \<Rightarrow> (None, orc1)
      | (True, orc1) \<Rightarrow>
          (case alloc_buckets n orc1 of
             (None, orc2) \<Rightarrow> (None, orc2)
           | (Some bs, orc2) \<Rightarrow> (Some ([\<lparr>nameid = -1, methodorvaridx = -1\<rparr>] # bs), orc2)))"

text \<open>
  The label \<open>classsymboloom\<close>: the name is removed from the module's class name
  map, the entries of the two class id maps under \<open>p->func_count\<close> (as the
  source has it) are removed, the buckets are freed and the symbol slot is
  cleared; then \<open>return -1\<close>.
\<close>

definition classsymboloom :: "h64program \<Rightarrow> string \<Rightarrow> nat \<Rightarrow> h64program" where
  "classsymboloom p name mi =
     (let msymbols = modules (symbols p) ! mi;
          p1 = set_module p mi
                 (msymbols\<lparr>class_name_to_entry := hash_MapUnset (class_name_to_entry msymbols) name\<rparr>);
          syms = symbols p1
      in p1\<lparr>symbols := syms\<lparr>
           class_id_to_module_symbols_index :=
             hash_MapUnset (class_id_to_module_symbols_index syms) (int (length (func p1))),
           class_id_to_module_symbols_class_subindex :=
             hash_MapUnset (class_id_to_module_symbols_class_subindex syms) (int (length (func p1)))\<rparr>\<rparr>)"

text \<open>
  From the \<open>strdup\<close> of the class name to the allocation of the buckets:
  every failure here jumps to \<open>classsymboloom\<close>. \<open>Inr (None, ...)\<close> is that jump,
  with the program as it is when the jump is taken; \<open>Inr (Some hashmap, ...)\<close>
  goes on to the class entry with the new buckets.
\<close>

definition AddClass_symbol ::
  "program_config \<Rightarrow> h64program \<Rightarrow> nat \<Rightarrow> string \<Rightarrow> outcomes
   \<Rightarrow> h64classmemberinfo list list option \<times> h64program \<times> outcomes" where
  "AddClass_symbol cfg p mi name orc =
     (case alloc orc of
        (False, orc1) \<Rightarrow> (None, p, orc1)
      | (True, orc1) \<Rightarrow>
          let msymbols = modules (symbols p) ! mi;
              setno = length (classes_symbols msymbols)
          in
          (case hash_MapSet (class_name_to_entry msymbols) name setno orc1 of
             (False, tbl, orc2) \<Rightarrow> (None, p, orc2)
           | (True, tbl, orc2) \<Rightarrow>
               let p1 = set_module p mi (msymbols\<lparr>class_name_to_entry := tbl\<rparr>) in
               (case hash_MapSet (class_id_to_module_symbols_index (symbols p1))
                       (int (length (classes p1))) (nat (ms_index msymbols)) orc2 of
                  (False, tbl1, orc3) \<Rightarrow> (None, p1, orc3)
                | (True, tbl1, orc3) \<Rightarrow>
                    let p2 = p1\<lparr>symbols := (symbols p1)\<lparr>
                               class_id_to_module_symbols_index := tbl1\<rparr>\<rparr> in
                    (case hash_MapSet (class_id_to_module_symbols_class_subindex (symbols p2))
                            (int (length (classes p2)))
                            (length (classes_symbols msymbols)) orc3 of
                       (False, tbl2, orc4) \<Rightarrow> (None, p2, orc4)
                     | (True, tbl2, orc4) \<Rightarrow>
                         let p3 = p2\<lparr>symbols := (symbols p2)\<lparr>
                                    class_id_to_module_symbols_class_subindex := tbl2\<rparr>\<rparr> in
                         (case alloc orc4 of
                            (False, orc5) \<Rightarrow> (None, p3, orc5)
                          | (True, orc5) \<Rightarrow>
                              (case alloc_buckets (nat (H64CLASS_HASH_SIZE cfg)) orc5 of
                                 (None, orc6) \<Rightarrow> (None, p3, orc6)
                               | (Some hashmap, orc6) \<Rightarrow> (Some hashmap, p3, orc6)))))))"

text \<open>
  \<open>h64program_AddClass\<close>. As in \<open>h64program_RegisterCFunction\<close>, the index of the
  file URI is stored in a variable of the inner block and the symbol receives
  -1.
\<close>

definition h64program_AddClass ::
  "program_config \<Rightarrow> h64program \<Rightarrow> string \<Rightarrow> string option \<Rightarrow> string option \<Rightarrow> string option
   \<Rightarrow> outcomes \<Rightarrow> prog_error + (int \<times> h64program \<times> outcomes)" where
  "h64program_AddClass cfg p name uri mp lib orc =
     (case alloc orc of
        (False, orc1) \<Rightarrow> Inr (-1, p, orc1)
      | (True, orc1) \<Rightarrow>
          let fileuriindex = (-1 :: int) in
          (case (case uri of
                   None \<Rightarrow> Inr (-1, p, orc1)
                 | Some u \<Rightarrow> bytecode_fileuriindex cfg p u orc1) of
             Inl e \<Rightarrow> Inl e
           | Inr (inner_fileuriindex, p1, orc2) \<Rightarrow>
               if uri \<noteq> None \<and> inner_fileuriindex < 0 then Inr (-1, p1, orc2)
               else
                 (case get_msymbols p1 mp lib orc2 of
                    Inl e \<Rightarrow> Inl e
                  | Inr (None, p2, orc3) \<Rightarrow> Inr (-1, p2, orc3)
                  | Inr (Some mi, p2, orc3) \<Rightarrow>
                      (case alloc orc3 of
                         (False, orc4) \<Rightarrow> Inr (-1, p2, orc4)
                       | (True, orc4) \<Rightarrow>
                           (case AddClass_symbol cfg p2 mi name orc4 of
                              (None, p3, orc5) \<Rightarrow> Inr (-1, classsymboloom p3 name mi, orc5)
                            | (Some hashmap, p3, orc5) \<Rightarrow>
                                let cls = \<lparr>base_class_global_id = -1,
                                           methods_count = 0,
                                           method_global_name_idx = [],
                                           method_func_idx = [],
                                           vars_count = 0,
                                           vars_global_name_idx = [],
                                           hasvarinitfunc = False,
                                           global_name_to_member_hashmap = hashmap\<rparr>;
                                    sym = \<lparr>cs_name = name, cs_fileuri_index = fileuriindex\<rparr>;
                                    msymbols = modules (symbols p3) ! mi;
                                    p4 = set_module p3 mi
                                           (msymbols\<lparr>classes_symbols :=
                                              classes_symbols msymbols @ [sym]\<rparr>);
                                    p5 = p4\<lparr>classes := classes p4 @ [cls]\<rparr>
                                in Inr (int (length (classes p5)) - 1, p5, orc5))))))"

text \<open>
  The program that \<open>memset\<close> and the assignments of \<open>h64program_New\<close> leave,
  with the symbols holding the builtin module only; the registrations that
  \<open>h64program_New\<close> makes through corelib (not among the sources) are left out.
\<close>

definition empty_symbols :: h64debugsymbols where
  "empty_symbols =
     \<lparr>fileuri = [],
      modules = [\<lparr>ms_index = 0, module_path = None, library_name = None,
                  func_symbols = [], classes_symbols = [], globalvar_symbols = [],
                  func_name_to_entry = Map.empty, class_name_to_entry = Map.empty,
                  globalvar_name_to_entry = Map.empty\<rparr>],
      member_names = [],
      func_id_to_module_symbols_index = Map.empty,
      func_id_to_module_symbols_func_subindex = Map.empty,
      class_id_to_module_symbols_index = Map.empty,
      class_id_to_module_symbols_class_subindex = Map.empty,
      mainfile_module_path = None,
      mainfileuri_index = 0\<rparr>"

definition empty_program :: h64program where
  "empty_program =
     \<lparr>func = [], classes = [], globalvar = [], symbols = empty_symbols,
      main_func_index = -1, globalinit_func_index = -1\<rparr>"

subsection \<open>Well-formed buckets and sequences of member registrations\<close>

text \<open>
  A bucket is well formed when it has a sentinel record with name id -1, every
  record before the sentinel has a name id that is not negative, and no two
  records before the sentinel have the same name id. A class has well-formed
  buckets when its hashmap has \<open>H64CLASS_HASH_SIZE\<close> buckets, each well formed.
\<close>

definition bucket_wf :: "h64classmemberinfo list \<Rightarrow> bool" where
  "bucket_wf b = (\<exists>k < length b. nameid (b ! k) = -1
                    \<and> (\<forall>j < k. nameid (b ! j) \<ge> 0)
                    \<and> distinct (map nameid (take k b)))"

definition class_buckets_wf :: "program_config \<Rightarrow> h64class \<Rightarrow> bool" where
  "class_buckets_wf cfg c =
     (length (global_name_to_member_hashmap c) = nat (H64CLASS_HASH_SIZE cfg)
      \<and> (\<forall>b \<in> set (global_name_to_member_hashmap c). bucket_wf b))"

text \<open>
  A sequence of \<open>h64program_RegisterClassMemberEx\<close> calls, each with its own
  arguments, memory contents and allocation outcomes. A call that returns 0
  is followed by the next call; an error ends the sequence.
\<close>

record member_call =
  mc_class_id :: int
  mc_name :: string
  mc_func_idx :: int
  mc_junk :: h64classmemberinfo
  mc_outcomes :: outcomes

fun RegisterClassMember_seq :: "program_config \<Rightarrow> h64program \<Rightarrow> member_call list \<Rightarrow> prog_error + h64program" where
  "RegisterClassMember_seq cfg p [] = Inr p"
| "RegisterClassMember_seq cfg p (c # cs) =
     (case h64program_RegisterClassMemberEx cfg p (mc_class_id c) (mc_name c) (mc_func_idx c)
             (mc_junk c) (mc_outcomes c) of
        Inl e \<Rightarrow> Inl e
      | Inr (r, p1, orc1) \<Rightarrow> RegisterClassMember_seq cfg p1 cs)"

subsection \<open>What a failed registration leaves\<close>

text \<open>
  The records of a bucket that a lookup can reach are those before the first
  record with a negative name id. \<open>class_view\<close> is a class with each bucket cut
  down to these records, \<open>module_tables\<close> the three symbol tables of a module.
  \<open>tables_kept p p'\<close>: the functions, the globals, the classes (as viewed), the
  two distinguished function indices and the symbol tables of every module of
  \<open>p\<close> are the same in \<open>p'\<close>. \<open>fileuri_kept_or_appended\<close>: the list of file URIs
  is the same, or has the normalized form of the given URI appended.
\<close>

definition bucket_contents :: "h64classmemberinfo list \<Rightarrow> h64classmemberinfo list" where
  "bucket_contents b = takeWhile (\<lambda>r. nameid r \<ge> 0) b"

definition class_view ::
  "h64class \<Rightarrow> int \<times> int \<times> int list \<times> int list \<times> int \<times> int list \<times> bool \<times> h64classmemberinfo list list" where
  "class_view c =
     (base_class_global_id c, methods_count c, method_global_name_idx c, method_func_idx c,
      vars_count c, vars_global_name_idx c, hasvarinitfunc c,
      map bucket_contents (global_name_to_member_hashmap c))"

definition module_tables ::
  "h64modulesymbols \<Rightarrow> h64funcsymbol list \<times> h64classsymbol list \<times> h64globalvarsymbol list" where
  "module_tables ms = (func_symbols ms, classes_symbols ms, globalvar_symbols ms)"

definition class_views :: "h64program \<Rightarrow> (int \<times> int \<times> int list \<times> int list \<times> int \<times> int list \<times> bool \<times> h64classmemberinfo list list) list" where
  "class_views p = map class_view (classes p)"

definition symbol_tables :: "h64program \<Rightarrow> (h64funcsymbol list \<times> h64classsymbol list \<times> h64globalvarsymbol list) list" where
  "symbol_tables p = map module_tables (modules (symbols p))"

definition tables_kept :: "h64program \<Rightarrow> h64program \<Rightarrow> bool" where
  "tables_kept p p' =
     (func p' = func p \<and> globalvar p' = globalvar p
      \<and> class_views p' = class_views p
      \<and> main_func_index p' = main_func_index p
      \<and> globalinit_func_index p' = globalinit_func_index p
      \<and> take (length (symbol_tables p)) (symbol_tables p') = symbol_tables p)"

definition fileuri_kept_or_appended ::
  "program_config \<Rightarrow> string option \<Rightarrow> h64program \<Rightarrow> h64program \<Rightarrow> bool" where
  "fileuri_kept_or_appended cfg uri p p' =
     (fileuri (symbols p') = fileuri (symbols p)
      \<or> (case uri of
            None \<Rightarrow> False
          | Some u \<Rightarrow>
              (case uri_Normalize cfg u of
                 None \<Rightarrow> False
               | Some n \<Rightarrow> fileuri (symbols p') = fileuri (symbols p) @ [n])))"

text \<open>The three registration operations, with their arguments.\<close>

datatype registration =
    Reg_AddGlobalvar string bool "string option" "string option" "string option"
  | Reg_RegisterCFunction "string option" "nat option" "string option" int
      "string option list option" bool "string option" "string option" int int h64classmemberinfo
  | Reg_AddClass string "string option" "string option" "string option"

fun run_registration ::
  "program_config \<Rightarrow> h64program \<Rightarrow> registration \<Rightarrow> outcomes
   \<Rightarrow> prog_error + (int \<times> h64program \<times> outcomes)" where
  "run_registration cfg p (Reg_AddGlobalvar name is_const uri mp lib) orc =
     h64program_AddGlobalvar cfg p name is_const uri mp lib orc"
| "run_registration cfg p (Reg_RegisterCFunction name fn uri arg_count arg_kwarg_name
       last_is_multiarg mp lib threadable cls junk) orc =
     h64program_RegisterCFunction cfg p name fn uri arg_count arg_kwarg_name
       last_is_multiarg mp lib threadable cls junk orc"
| "run_registration cfg p (Reg_AddClass name uri mp lib) orc =
     h64program_AddClass cfg p name uri mp lib orc"

fun registration_fileuri :: "registration \<Rightarrow> string option" where
  "registration_fileuri (Reg_AddGlobalvar name is_const uri mp lib) = uri"
| "registration_fileuri (Reg_RegisterCFunction name fn uri arg_count arg_kwarg_name
       last_is_multiarg mp lib threadable cls junk) = uri"
| "registration_fileuri (Reg_AddClass name uri mp lib) = uri"

fun registration_is_AddGlobalvar :: "registration \<Rightarrow> bool" where
  "registration_is_AddGlobalvar (Reg_AddGlobalvar name is_const uri mp lib) = True"
| "registration_is_AddGlobalvar (Reg_RegisterCFunction name fn uri arg_count arg_kwarg_name
       last_is_multiarg mp lib threadable cls junk) = False"
| "registration_is_AddGlobalvar (Reg_AddClass name uri mp lib) = False"

text \<open>
  What the statements that the three registration functions begin with (the
  file URI and the module record) may have changed.
\<close>

definition prepared :: "program_config \<Rightarrow> string option \<Rightarrow> h64program \<Rightarrow> h64program \<Rightarrow> bool" where
  "prepared cfg uri p p' =
     (func p' = func p \<and> globalvar p' = globalvar p \<and> classes p' = classes p
      \<and> main_func_index p' = main_func_index p
      \<and> globalinit_func_index p' = globalinit_func_index p
      \<and> length (modules (symbols p)) \<le> length (modules (symbols p'))
      \<and> take (length (modules (symbols p))) (modules (symbols p')) = modules (symbols p)
      \<and> fileuri_kept_or_appended cfg uri p p')"

section \<open>compiler/scoperesolver.c: global storage\<close>

subsection \<open>Data\<close>

text \<open>
  The AST, the result messages and the compile project are declared in
  headers that are not among the sources (compiler/ast.h, compiler/result.h,
  compiler/compileproject.h); the records hold the fields that
  scoperesolver.c reads and writes in the functions modelled here. Pointers
  to expressions and to ASTs are positions in \<open>exprs\<close> and \<open>asts\<close>.
  \<open>expr_scope_is_global\<close> is what \<open>ast_GetScope(expr, &ast->scope)\<close> gives:
  \<open>None\<close> for NULL, otherwise the scope's \<open>is_global\<close>.
\<close>

datatype expressiontype =
    H64EXPRTYPE_VARDEF_STMT | H64EXPRTYPE_CLASSDEF_STMT | H64EXPRTYPE_FUNCDEF_STMT
  | H64EXPRTYPE_INLINEFUNCDEF | H64EXPRTYPE_IMPORT_STMT | H64EXPRTYPE_CALL
  | H64EXPRTYPE_OTHER

datatype storagetype =
    H64STORETYPE_GLOBALVARSLOT | H64STORETYPE_GLOBALFUNCSLOT | H64STORETYPE_GLOBALCLASSSLOT

record storageref =
  ref_type :: storagetype
  ref_id :: int

datatype vardef_value = Value_NULL | Value_literal_none | Value_other

record h64expression =
  etype :: expressiontype
  parent :: "nat option"
  line :: int
  column :: int
  storage :: "storageref option"
  expr_scope_is_global :: "bool option"
  vardef_identifier :: string
  vardef_is_const :: bool
  vardef_val :: vardef_value
  classdef_name :: string
  funcdef_name :: "string option"
  arg_name :: "string option list"
  arg_has_value :: "bool list"
  last_posarg_is_multiarg :: bool
  bytecode_func_id :: int
  import_elements :: "string list"
  source_library :: "string option"
  referenced_ast :: "nat option"

datatype messagetype = H64MSG_ERROR | H64MSG_INFO | H64MSG_WARNING

record h64resultmessage =
  msg_type :: messagetype
  msg_text :: string
  msg_fileuri :: string
  msg_line :: int
  msg_column :: int

record h64result =
  success :: bool
  message :: "h64resultmessage list"

record h64ast =
  ast_fileuri :: string
  ast_module_path :: "string option"
  ast_library_name :: "string option"
  resultmsg :: h64result
  exprs :: "h64expression list"
  scope_definitionref :: "nat list"
  global_storage_built :: bool

text \<open>
  The project: the program, the project's result messages and the ASTs it
  holds.
\<close>

record h64compileproject =
  program :: h64program
  pr_resultmsg :: h64result
  asts :: "h64ast list"




definition the_expr :: "h64compileproject \<Rightarrow> nat \<Rightarrow> nat \<Rightarrow> h64expression" where
  "the_expr pr a e = exprs (asts pr ! a) ! e"

definition set_ast :: "h64compileproject \<Rightarrow> nat \<Rightarrow> h64ast \<Rightarrow> h64compileproject" where
  "set_ast pr a x = pr\<lparr>asts := (asts pr)[a := x]\<rparr>"

definition set_expr :: "h64compileproject \<Rightarrow> nat \<Rightarrow> nat \<Rightarrow> h64expression \<Rightarrow> h64compileproject" where
  "set_expr pr a e x = set_ast pr a ((asts pr ! a)\<lparr>exprs := (exprs (asts pr ! a))[e := x]\<rparr>)"



datatype resolve_error = ProgramError prog_error | MalformedAST | NullPointer


subsection \<open>scoperesolver_ComputeItemStorage\<close>

text \<open>
  The results below are the return value (0 or 1), the value left in
  \<open>*outofmemory\<close> (which the callers initialise to 0), the project and the
  unused allocation outcomes.

  \<open>ComputeItemStorage_global\<close> is the first block of the function
  (\<open>if (scope->is_global || expr->type == H64EXPRTYPE_CLASSDEF_STMT)\<close>).
  \<open>Some (r, oom)\<close> is a \<open>return\<close> inside the block; \<open>None\<close> means that the
  function goes on after the block.
\<close>

definition ComputeItemStorage_global ::
  "program_config \<Rightarrow> h64compileproject \<Rightarrow> nat \<Rightarrow> nat \<Rightarrow> bool \<Rightarrow> outcomes
   \<Rightarrow> resolve_error + ((int \<times> bool) option \<times> h64compileproject \<times> outcomes)" where
  "ComputeItemStorage_global cfg pr a e is_global orc =
     (let ast = asts pr ! a; expr = exprs ast ! e in
      if is_global \<or> etype expr = H64EXPRTYPE_CLASSDEF_STMT then
        (if storage expr \<noteq> None then Inr (Some (1, False), pr, orc)
         else if etype expr = H64EXPRTYPE_VARDEF_STMT then
           (case h64program_AddGlobalvar cfg (program pr) (vardef_identifier expr)
                   (vardef_is_const expr) (Some (ast_fileuri ast)) (ast_module_path ast)
                   (ast_library_name ast) orc of
              Inl err \<Rightarrow> Inl (ProgramError err)
            | Inr (global_id, p1, orc1) \<Rightarrow>
                if global_id < 0 then Inr (Some (0, True), pr\<lparr>program := p1\<rparr>, orc1)
                else
                  Inr (None,
                       set_expr (pr\<lparr>program := p1\<rparr>) a e
                         (expr\<lparr>storage := Some \<lparr>ref_type = H64STORETYPE_GLOBALVARSLOT,
                                                 ref_id = global_id\<rparr>\<rparr>),
                       orc1))
         else if etype expr = H64EXPRTYPE_CLASSDEF_STMT then
           (case h64program_AddClass cfg (program pr) (classdef_name expr)
                   (Some (ast_fileuri ast)) (ast_module_path ast) (ast_library_name ast) orc of
              Inl err \<Rightarrow> Inl (ProgramError err)
            | Inr (global_id, p1, orc1) \<Rightarrow>
                if global_id < 0 then Inr (Some (0, True), pr\<lparr>program := p1\<rparr>, orc1)
                else
                  Inr (Some (1, False),
                       set_expr (pr\<lparr>program := p1\<rparr>) a e
                         (expr\<lparr>storage := Some \<lparr>ref_type = H64STORETYPE_GLOBALCLASSSLOT,
                                                 ref_id = global_id\<rparr>\<rparr>),
                       orc1))
         else Inr (None, pr, orc))
      else Inr (None, pr, orc))"







definition valid_expr :: "h64compileproject \<Rightarrow> nat \<Rightarrow> nat \<Rightarrow> bool" where
  "valid_expr pr a e = (a < length (asts pr) \<and> e < length (exprs (asts pr ! a)))"

lemma set_expr_etype:
  "valid_expr pr a e \<Longrightarrow> etype x = etype (the_expr pr a e) \<Longrightarrow>
   map etype (exprs (asts (set_expr pr a e x) ! a')) = map etype (exprs (asts pr ! a'))"
  unfolding set_expr_def set_ast_def the_expr_def valid_expr_def
  by (cases "a' = a") (simp_all add: map_update list_update_same_conv)

lemma ComputeItemStorage_global_etype:
  "ComputeItemStorage_global cfg pr a e g orc = Inr (res, pr1, orc1) \<Longrightarrow> valid_expr pr a e \<Longrightarrow>
   map etype (exprs (asts pr1 ! a')) = map etype (exprs (asts pr ! a'))
   \<and> length (asts pr1) = length (asts pr)"
  unfolding ComputeItemStorage_global_def Let_def
  by (auto split: if_splits sum.splits prod.splits
      simp: set_expr_etype the_expr_def valid_expr_def)
     (simp_all add: set_expr_def set_ast_def)




subsection \<open>The visitor that builds global storage\<close>


definition is_definition_type :: "expressiontype \<Rightarrow> bool" where
  "is_definition_type t =
     (t = H64EXPRTYPE_VARDEF_STMT \<or> t = H64EXPRTYPE_CLASSDEF_STMT
      \<or> t = H64EXPRTYPE_FUNCDEF_STMT \<or> t = H64EXPRTYPE_INLINEFUNCDEF)"






subsection \<open>scoperesolver_BuildASTGlobalStorage\<close>















subsection \<open>Two definitions of main\<close>



subsection \<open>What the building of global storage keeps and reaches\<close>

text \<open>
  \<open>exprs_kept es es'\<close>: the expressions are as many as before, each has its
  type and its scope, and each that had storage has storage.
  \<open>ast_frame a pr pr'\<close>: from \<open>pr\<close> to \<open>pr'\<close> no AST other than \<open>a\<close> has changed,
  and \<open>a\<close> has kept its \<open>global_storage_built\<close> flag, its scope definitions
  and, in the sense of \<open>exprs_kept\<close>, its expressions.
\<close>

definition exprs_kept :: "h64expression list \<Rightarrow> h64expression list \<Rightarrow> bool" where
  "exprs_kept es es' =
     (length es' = length es
      \<and> (\<forall>i < length es.
            etype (es' ! i) = etype (es ! i)
            \<and> expr_scope_is_global (es' ! i) = expr_scope_is_global (es ! i)
            \<and> (storage (es ! i) \<noteq> None \<longrightarrow> storage (es' ! i) \<noteq> None)))"

definition ast_frame :: "nat \<Rightarrow> h64compileproject \<Rightarrow> h64compileproject \<Rightarrow> bool" where
  "ast_frame a pr pr' =
     (length (asts pr') = length (asts pr)
      \<and> (\<forall>b. b \<noteq> a \<longrightarrow> asts pr' ! b = asts pr ! b)
      \<and> global_storage_built (asts pr' ! a) = global_storage_built (asts pr ! a)
      \<and> scope_definitionref (asts pr' ! a) = scope_definitionref (asts pr ! a)
      \<and> exprs_kept (exprs (asts pr ! a)) (exprs (asts pr' ! a)))"

text \<open>
  An expression has its global storage when it is no definition of the global
  scope or its storage is set. The global storage of an AST is complete when
  every expression has its global storage, or when the AST has no module
  path (\<open>scoperesolver_BuildASTGlobalStorage\<close> returns 1 without visiting the
  expressions when it cannot give the file a module path).
\<close>

definition has_global_storage :: "h64expression \<Rightarrow> bool" where
  "has_global_storage x =
     (\<not> (is_definition_type (etype x) \<and> expr_scope_is_global x = Some True)
      \<or> storage x \<noteq> None)"

definition storage_complete :: "h64ast \<Rightarrow> bool" where
  "storage_complete ast =
     (ast_module_path ast = None \<or> list_all has_global_storage (exprs ast))"

text \<open>
  What is taken for granted of the loader. \<open>compileproject_GetAST\<close> may add
  ASTs to the project and may resolve ASTs; it is taken
  \<^item> to leave every AST whose global storage is built as it is
    (\<open>built_kept\<close>),
  \<^item> to leave complete the global storage of every AST whose
    \<open>global_storage_built\<close> flag it sets (\<open>new_complete\<close>), and
  \<^item> to leave \<open>main_func_index\<close> as it is (section 4.B.2 of the spec: only the
    entry file contributes \<open>main\<close>).
  Nothing is taken of how the loader finds and parses a file, nor of whether
  it resolves the AST that it returns.
\<close>

definition built_kept :: "h64compileproject \<Rightarrow> h64compileproject \<Rightarrow> bool" where
  "built_kept pr pr' =
     (length (asts pr) \<le> length (asts pr')
      \<and> (\<forall>x < length (asts pr).
            global_storage_built (asts pr ! x) \<longrightarrow> asts pr' ! x = asts pr ! x))"

definition new_complete :: "h64compileproject \<Rightarrow> h64compileproject \<Rightarrow> bool" where
  "new_complete pr pr' =
     (\<forall>x < length (asts pr').
        \<not> (x < length (asts pr) \<and> global_storage_built (asts pr ! x))
        \<longrightarrow> global_storage_built (asts pr' ! x)
        \<longrightarrow> storage_complete (asts pr' ! x))"


text \<open>
  \<open>build_step a pr pr'\<close>: what a part of the work on the AST \<open>a\<close> does, the
  requests to the loader included. The AST \<open>a\<close> has kept its flag, its scope
  definitions and, in the sense of \<open>exprs_kept\<close>, its expressions; every other
  AST whose global storage was built is as it was, and every other AST whose
  flag has been set has its global storage complete.
\<close>

definition build_step :: "nat \<Rightarrow> h64compileproject \<Rightarrow> h64compileproject \<Rightarrow> bool" where
  "build_step a pr pr' =
     (length (asts pr) \<le> length (asts pr')
      \<and> (\<forall>x < length (asts pr).
            x \<noteq> a \<longrightarrow> global_storage_built (asts pr ! x) \<longrightarrow> asts pr' ! x = asts pr ! x)
      \<and> (\<forall>x < length (asts pr').
            x \<noteq> a \<longrightarrow> \<not> (x < length (asts pr) \<and> global_storage_built (asts pr ! x))
            \<longrightarrow> global_storage_built (asts pr' ! x) \<longrightarrow> storage_complete (asts pr' ! x))
      \<and> global_storage_built (asts pr' ! a) = global_storage_built (asts pr ! a)
      \<and> scope_definitionref (asts pr' ! a) = scope_definitionref (asts pr ! a)
      \<and> exprs_kept (exprs (asts pr ! a)) (exprs (asts pr' ! a)))"



section \<open>vmexec.c: the interpreter\<close>

subsection \<open>GC values and the heap pool\<close>

text \<open>
  Modelled from the spec: gcvalue.h, poolalloc.c, vmstrings.c and vmexec.h are
  not among the sources. Sections 3.2 and 4.C: a GC value is a heap object
  with a type and two reference counts; the heap of a thread is a pool of GC
  values, whose allocations are recycled when they are freed. An address is
  a position in the list of the pool's items, \<open>None\<close> marks a free item.
  \<open>poolalloc_malloc\<close> gives the first free item, or a new one at the end, with
  the contents that the memory happens to have, or NULL when it cannot
  allocate; \<open>vmstrings_Set\<close> allocates the buffer of a string of the given
  length, or fails.
\<close>

datatype gcvaluetype = H64GCVALUETYPE_STRING | H64GCVALUETYPE_OTHER

record h64gcvalue =
  gc_type :: gcvaluetype
  heapreferencecount :: int
  externalreferencecount :: int
  str_val :: "unicodechar list"

type_synonym poolalloc = "h64gcvalue option list"

fun first_free :: "poolalloc \<Rightarrow> nat" where
  "first_free [] = 0"
| "first_free (None # items) = 0"
| "first_free (Some v # items) = Suc (first_free items)"

definition poolalloc_malloc ::
  "poolalloc \<Rightarrow> h64gcvalue \<Rightarrow> outcomes \<Rightarrow> nat option \<times> poolalloc \<times> outcomes" where
  "poolalloc_malloc pool junk orc =
     (case alloc orc of
        (False, orc1) \<Rightarrow> (None, pool, orc1)
      | (True, orc1) \<Rightarrow>
          let addr = first_free pool in
          (Some addr,
           (if addr < length pool then pool[addr := Some junk] else pool @ [Some junk]),
           orc1))"

definition poolalloc_free :: "poolalloc \<Rightarrow> nat \<Rightarrow> poolalloc" where
  "poolalloc_free pool addr = pool[addr := None]"

definition vmstrings_Set :: "int \<Rightarrow> outcomes \<Rightarrow> unicodechar list option \<times> outcomes" where
  "vmstrings_Set len orc =
     (case alloc orc of
        (False, orc1) \<Rightarrow> (None, orc1)
      | (True, orc1) \<Rightarrow> (Some (replicate (nat len) 0), orc1))"

subsection \<open>The thread\<close>

text \<open>
  The fields of \<open>h64vmthread\<close> that vmexec.c uses. \<open>vmthread_New\<close> clears the
  thread object with \<open>memset\<close> and creates the heap: \<open>stack\<close> is NULL in the
  thread it returns.

  The local variable \<open>heap\<close> of \<open>vmthread_RunFunction\<close> is a pointer to a pool.
  The only pool that the function could name is the heap of its thread, so
  the values of the variable are that pointer and the indeterminate value of
  a variable that has not been assigned.
\<close>

record h64vmthread =
  vm_stack :: "h64stack option"
  vm_heap :: poolalloc

datatype vm_error = VMAssertFailed | VMNullPointer | VMIndeterminateValue | VMOutOfBounds

datatype heap_pointer = Indeterminate | Thread_heap

definition vmthread_New :: "outcomes \<Rightarrow> h64vmthread option \<times> outcomes" where
  "vmthread_New orc =
     (case alloc orc of
        (False, orc1) \<Rightarrow> (None, orc1)
      | (True, orc1) \<Rightarrow>
          (case alloc orc1 of
             (False, orc2) \<Rightarrow> (None, orc2)
           | (True, orc2) \<Rightarrow> (Some \<lparr>vm_stack = None, vm_heap = []\<rparr>, orc2)))"

text \<open>
  \<open>STACK_ENTRY(stack, no)\<close> (stack.h, not among the sources) is taken to be the
  address of the slot \<open>no\<close> counted from the floor of the current function;
  \<open>None\<close>: the address is outside the live slots. \<open>set_entry\<close> writes through
  the address.
\<close>

definition STACK_ENTRY :: "h64stack \<Rightarrow> int \<Rightarrow> nat option" where
  "STACK_ENTRY stack no =
     (let i = no + current_func_floor stack in
      if 0 \<le> i \<and> i < entry_count stack \<and> nat i < length (entry stack) then Some (nat i)
      else None)"

definition set_entry :: "h64vmthread \<Rightarrow> h64stack \<Rightarrow> nat \<Rightarrow> valuecontent \<Rightarrow> h64vmthread" where
  "set_entry vmthread stack i vc =
     vmthread\<lparr>vm_stack := Some (stack\<lparr>entry := (entry stack)[i := vc]\<rparr>)\<rparr>"

subsection \<open>vmthread_RunFunction\<close>

text \<open>
  The block \<open>inst_setconst\<close> up to the jump to the next instruction. \<open>False\<close>
  in the result is the jump to \<open>triggeroom\<close>, \<open>True\<close> the jump to the next
  instruction. \<open>valuecontent_Free\<close> on the slot frees what the slot owns and
  leaves the slot as it is.
\<close>

definition inst_setconst ::
  "h64vmthread \<Rightarrow> heap_pointer \<Rightarrow> int \<Rightarrow> valuecontent \<Rightarrow> h64gcvalue \<Rightarrow> outcomes
   \<Rightarrow> vm_error + (bool \<times> h64vmthread \<times> outcomes)" where
  "inst_setconst vmthread heap slot inst_content junk orc =
     (case vm_stack vmthread of
        None \<Rightarrow> Inl VMNullPointer
      | Some stack \<Rightarrow>
          (case STACK_ENTRY stack slot of
             None \<Rightarrow> Inl VMOutOfBounds
           | Some i \<Rightarrow>
               (case inst_content of
                  H64VALTYPE_CONSTPREALLOCSTR payload \<Rightarrow>
                    (case heap of
                       Indeterminate \<Rightarrow> Inl VMIndeterminateValue
                     | Thread_heap \<Rightarrow>
                         (case poolalloc_malloc (vm_heap vmthread) junk orc of
                            (None, pool1, orc1) \<Rightarrow>
                              Inr (False, set_entry vmthread stack i (H64VALTYPE_GCVAL None), orc1)
                          | (Some addr, pool1, orc1) \<Rightarrow>
                              let gcval = \<lparr>gc_type = H64GCVALUETYPE_STRING,
                                           heapreferencecount = 0,
                                           externalreferencecount = 1,
                                           str_val = []\<rparr>
                              in
                              (case vmstrings_Set (int (length payload)) orc1 of
                                 (None, orc2) \<Rightarrow>
                                   Inr (False,
                                        (set_entry vmthread stack i (H64VALTYPE_GCVAL None))
                                          \<lparr>vm_heap := poolalloc_free (pool1[addr := Some gcval]) addr\<rparr>,
                                        orc2)
                               | (Some buf, orc2) \<Rightarrow>
                                   Inr (True,
                                        (set_entry vmthread stack i (H64VALTYPE_GCVAL (Some addr)))
                                          \<lparr>vm_heap := pool1[addr := Some (gcval\<lparr>str_val := payload\<rparr>)]\<rparr>,
                                        orc2))))
                | H64VALTYPE_GCVAL p \<Rightarrow>
                    (case p of
                       None \<Rightarrow> Inl VMNullPointer
                     | Some addr \<Rightarrow>
                         if \<not> addr < length (vm_heap vmthread) then Inl VMOutOfBounds
                         else
                           (case vm_heap vmthread ! addr of
                              None \<Rightarrow> Inl VMOutOfBounds
                            | Some v \<Rightarrow>
                                Inr (True,
                                     (set_entry vmthread stack i inst_content)
                                       \<lparr>vm_heap := (vm_heap vmthread)
                                          [addr := Some (v\<lparr>externalreferencecount := 1\<rparr>)]\<rparr>,
                                     orc)))
                | _ \<Rightarrow> Inr (True, set_entry vmthread stack i inst_content, orc))))"

text \<open>
  The dispatch \<open>goto *jumptable[type]\<close>. The table has an entry for
  \<open>setconst\<close> and for the types of \<open>has_label\<close>, whose blocks print a message
  and return 0; for any other type the entry has not been assigned. After
  the last instruction the dispatch reads the type behind the end of the
  instructions.
\<close>

definition has_label :: "instructiontype \<Rightarrow> bool" where
  "has_label t =
     (t \<in> set [H64INST_INVALID, H64INST_SETGLOBAL, H64INST_GETGLOBAL, H64INST_GETFUNC,
               H64INST_GETCLASS, H64INST_VALUECOPY, H64INST_BINOP, H64INST_UNOP,
               H64INST_CALL, H64INST_SETTOP, H64INST_RETURNVALUE, H64INST_JUMPTARGET,
               H64INST_CONDJUMP, H64INST_JUMP, H64INST_NEWITERATOR, H64INST_ITERATE,
               H64INST_PUSHCATCHFRAME, H64INST_ADDCATCHTYPEBYREF, H64INST_ADDCATCHTYPE,
               H64INST_POPCATCHFRAME])"

fun run_instructions ::
  "h64vmthread \<Rightarrow> heap_pointer \<Rightarrow> h64instruction list \<Rightarrow> h64gcvalue \<Rightarrow> outcomes
   \<Rightarrow> vm_error + (int \<times> h64vmthread \<times> outcomes)" where
  "run_instructions vmthread heap [] junk orc = Inl VMOutOfBounds"
| "run_instructions vmthread heap (Inst_setconst slot inst_content # rest) junk orc =
     (case inst_setconst vmthread heap slot inst_content junk orc of
        Inl err \<Rightarrow> Inl err
      | Inr (False, vmthread1, orc1) \<Rightarrow> Inr (0, vmthread1, orc1)
      | Inr (True, vmthread1, orc1) \<Rightarrow> run_instructions vmthread1 heap rest junk orc1)"
| "run_instructions vmthread heap (Inst_other t # rest) junk orc =
     (if has_label t then Inr (0, vmthread, orc) else Inl VMIndeterminateValue)"

text \<open>
  \<open>vmthread_RunFunction\<close>; \<open>einfo\<close> says whether the pointer \<open>einfo\<close> is not
  NULL. The locals are set up by \<open>h64stack *stack = vmthread->stack;\<close> and
  \<open>poolalloc *heap = heap;\<close>: the second initialises \<open>heap\<close> from itself, which
  leaves it indeterminate.
\<close>

definition vmthread_RunFunction ::
  "h64vmthread option \<Rightarrow> h64program \<Rightarrow> int \<Rightarrow> bool \<Rightarrow> h64gcvalue \<Rightarrow> outcomes
   \<Rightarrow> vm_error + (int \<times> h64vmthread option \<times> outcomes)" where
  "vmthread_RunFunction vmthread pr func_id einfo junk orc =
     (case vmthread of
        None \<Rightarrow> Inr (0, None, orc)
      | Some vm \<Rightarrow>
          if \<not> einfo then Inr (0, vmthread, orc)
          else if \<not> (func_id \<ge> 0 \<and> func_id < int (length (func pr))) then Inl VMAssertFailed
          else
            (let stack = vm_stack vm;
                 heap = Indeterminate
             in case run_instructions vm heap (instructions (func pr ! nat func_id)) junk orc of
                  Inl err \<Rightarrow> Inl err
                | Inr (r, vm1, orc1) \<Rightarrow> Inr (r, Some vm1, orc1)))"

section \<open>Concrete programs\<close>

definition example_config :: program_config where
  "example_config = \<lparr>H64CLASS_HASH_SIZE = 4, H64CLASS_MAX_METHODS = 2 ^ 30, uri_Normalize = Some\<rparr>"

definition example_fileuri_program :: h64program where
  "example_fileuri_program =
     empty_program\<lparr>symbols := empty_symbols\<lparr>fileuri := [''file:///a.h64'']\<rparr>\<rparr>"

definition example_fileuri_program2 :: h64program where
  "example_fileuri_program2 =
     empty_program\<lparr>symbols := empty_symbols\<lparr>fileuri := [''file:///a.h64'', ''file:///a.h64'']\<rparr>\<rparr>"

definition example_junk :: h64classmemberinfo where
  "example_junk = \<lparr>nameid = 77, methodorvaridx = 99\<rparr>"

definition example_class_program :: h64program where
  "example_class_program =
     (case h64program_AddClass example_config empty_program ''C'' None None None [] of
        Inr (cid, p, orc) \<Rightarrow> p
      | Inl e \<Rightarrow> empty_program)"

definition example_method0_program :: h64program where
  "example_method0_program =
     (case h64program_RegisterClassMemberEx example_config example_class_program 0 ''m'' 0
             example_junk [] of
        Inr (r, p, orc) \<Rightarrow> p
      | Inl e \<Rightarrow> empty_program)"

















text \<open>
  A thread with a stack of one empty slot and an empty heap, and a program
  whose only function is the instruction \<open>setconst\<close> of the string \<open>hello\<close> to
  slot 0.
\<close>

definition example_vmthread :: h64vmthread where
  "example_vmthread =
     \<lparr>vm_stack = Some \<lparr>entry_count = 1, alloc_count = 1, entry = [H64VALTYPE_NONE],
                        current_func_floor = 0\<rparr>,
      vm_heap = []\<rparr>"

definition example_hello :: "unicodechar list" where
  "example_hello = [0x68, 0x65, 0x6C, 0x6C, 0x6F]"

definition example_setconst_program :: h64program where
  "example_setconst_program =
     empty_program\<lparr>func :=
       [\<lparr>input_stack_size = 0, is_threadable = 0, iscfunc = False,
         associated_class_index = -1, cfunclookup = None, cfunc_ptr = None,
         instructions = [Inst_setconst 0 (H64VALTYPE_CONSTPREALLOCSTR example_hello)]\<rparr>]\<rparr>"

definition example_gcvalue :: h64gcvalue where
  "example_gcvalue = \<lparr>gc_type = H64GCVALUETYPE_OTHER, heapreferencecount = 5,
                       externalreferencecount = 9, str_val = []\<rparr>"

text \<open>
  A program with the function \<open>f\<close> of the builtin module, and what a second
  registration of the name \<open>f\<close> leaves when the \<open>strdup\<close> of the name fails; the
  program with the class \<open>C\<close>, and what the registration of a class \<open>B\<close> leaves
  when the \<open>strdup\<close> of its name fails.
\<close>

definition example_f_program :: h64program where
  "example_f_program =
     (case h64program_RegisterHorse64Function example_config empty_program (Some ''f'') None 0 None
             False None None (-1) example_junk [] of
        Inr (idx, p, orc) \<Rightarrow> p
      | Inl e \<Rightarrow> empty_program)"

definition example_f_program_failed :: h64program where
  "example_f_program_failed =
     (case h64program_RegisterHorse64Function example_config example_f_program (Some ''f'') None 0
             None False None None (-1) example_junk [True, True, False] of
        Inr (idx, p, orc) \<Rightarrow> p
      | Inl e \<Rightarrow> empty_program)"

definition example_class_program_failed :: h64program where
  "example_class_program_failed =
     (case h64program_AddClass example_config example_class_program ''B'' None None None
             [True, True, False] of
        Inr (idx, p, orc) \<Rightarrow> p
      | Inl e \<Rightarrow> empty_program)"

section \<open>Results for unicode.c\<close>

text \<open>
  Claim C4. The euro sign U+20AC is \<open>E2 82 AC\<close> in UTF-8. \<open>utf8_to_utf32\<close>
  decodes these bytes to the code point, and \<open>utf32_to_utf8\<close> encodes the code
  point as \<open>C2 82 AC\<close>, which are not the original bytes.
\<close>

theorem utf8_roundtrip_euro_changes_bytes:
  "utf8_to_utf32 [0xE2, 0x82, 0xAC] True True = Inr [0x20AC]
   \<and> utf32_to_utf8 [0x20AC] 16 False = Some [0xC2, 0x82, 0xAC]"
  by (simp add: utf8_to_utf32_def utf8_to_utf32_ex_def get_utf8_codepoint_def
      is_utf8_start_def Let_def write_codepoint_as_utf8_def)

section \<open>Results for stack.c\<close>

lemma stack_ToSize_wf:
  assumes "stack_config_ok cfg" "stack_wf st"
    and "stack_ToSize cfg st n em g s = Inr (r, st')"
  shows "stack_wf st'"
  using assms
  by (auto simp: stack_ToSize_def stack_Shrink_def stack_wf_def stack_config_ok_def Let_def
      split: if_splits option.splits sum.splits)

lemma stack_ToSize_low_slots:
  assumes "stack_wf st"
    and "stack_ToSize cfg st n em g s = Inr (r, st')"
    and "0 \<le> k" "k < entry_count st" "k < n"
  shows "entry st' ! nat k = entry st ! nat k"
  using assms
  by (auto simp: stack_ToSize_def stack_Shrink_def stack_wf_def Let_def nth_append
      split: if_splits option.splits sum.splits)

lemma stack_ToSize_count:
  assumes "stack_wf st"
    and "stack_ToSize cfg st n em g s = Inr (r, st')"
  shows "min (entry_count st) n \<le> entry_count st'"
  using assms
  by (auto simp: stack_ToSize_def stack_Shrink_def stack_wf_def Let_def nth_append
      split: if_splits option.splits sum.splits)

lemma stack_ToSize_alloc:
  assumes "stack_config_ok cfg" "stack_wf st"
    and "stack_ToSize cfg st n em g s = Inr (r, st')"
    and "alloc_count st \<le> B" "n + ALLOC_OVERSHOOT cfg + ALLOC_EMERGENCY_MARGIN cfg \<le> B"
  shows "alloc_count st' \<le> B"
  using assms
  by (auto simp: stack_ToSize_def stack_Shrink_def stack_wf_def stack_config_ok_def Let_def
      split: if_splits option.splits sum.splits)

lemma stack_ToSize_seq_slots:
  assumes "stack_config_ok cfg"
  shows "stack_wf st \<Longrightarrow> stack_ToSize_seq cfg st calls = Inr st' \<Longrightarrow>
         0 \<le> k \<Longrightarrow> k < entry_count st \<Longrightarrow> \<forall>c \<in> set calls. k < call_size c \<Longrightarrow>
         entry st' ! nat k = entry st ! nat k"
proof (induction calls arbitrary: st)
  case Nil
  then show ?case by simp
next
  case (Cons c cs)
  from Cons.prems(2) obtain r st1 where
    step: "stack_ToSize cfg st (call_size c) (call_emergency c) (call_grow_ok c) (call_shrink_ok c) = Inr (r, st1)"
    and rest: "stack_ToSize_seq cfg st1 cs = Inr st'"
    by (auto split: sum.splits)
  have wf1: "stack_wf st1" using stack_ToSize_wf [OF assms Cons.prems(1) step] .
  have kc: "k < call_size c" using Cons.prems(5) by simp
  have k1: "k < entry_count st1"
    using stack_ToSize_count [OF Cons.prems(1) step] Cons.prems(4) kc by simp
  have "entry st' ! nat k = entry st1 ! nat k"
    using Cons.IH [OF wf1 rest Cons.prems(3) k1] Cons.prems(5) by simp
  also have "\<dots> = entry st ! nat k"
    using stack_ToSize_low_slots [OF Cons.prems(1) step Cons.prems(3) Cons.prems(4) kc] .
  finally show ?case .
qed

lemma stack_ToSize_seq_alloc:
  assumes "stack_config_ok cfg"
  shows "stack_wf st \<Longrightarrow> stack_ToSize_seq cfg st calls = Inr st' \<Longrightarrow>
         alloc_count st \<le> B \<Longrightarrow>
         \<forall>c \<in> set calls. call_size c + ALLOC_OVERSHOOT cfg + ALLOC_EMERGENCY_MARGIN cfg \<le> B \<Longrightarrow>
         alloc_count st' \<le> B"
proof (induction calls arbitrary: st)
  case Nil
  then show ?case by simp
next
  case (Cons c cs)
  from Cons.prems(2) obtain r st1 where
    step: "stack_ToSize cfg st (call_size c) (call_emergency c) (call_grow_ok c) (call_shrink_ok c) = Inr (r, st1)"
    and rest: "stack_ToSize_seq cfg st1 cs = Inr st'"
    by (auto split: sum.splits)
  have wf1: "stack_wf st1" using stack_ToSize_wf [OF assms Cons.prems(1) step] .
  have a1: "alloc_count st1 \<le> B"
    using stack_ToSize_alloc [OF assms Cons.prems(1) step Cons.prems(3)] Cons.prems(4) by simp
  show ?case using Cons.IH [OF wf1 rest a1] Cons.prems(4) by simp
qed

text \<open>
  Claim C6. For every sequence of \<open>stack_ToSize\<close> calls that runs to its end
  (the sizes may grow and then shrink, or come in any other order), from any
  well-formed stack: every slot below the smallest requested size that was
  live at the start holds the value it held at the start, and if the capacity
  was within \<open>max n + ALLOC_OVERSHOOT + ALLOC_EMERGENCY_MARGIN + 1\<close> at the
  start (as it is for a new stack), it is within that bound at the end.
\<close>

theorem stack_ToSize_seq_preserves_and_bounds:
  assumes cfg: "stack_config_ok cfg" and wf: "stack_wf st" and ne: "calls \<noteq> []"
    and run: "stack_ToSize_seq cfg st calls = Inr st'"
  shows "(\<forall>k. 0 \<le> k \<and> k < entry_count st \<and> k < Min (call_size ` set calls)
            \<longrightarrow> entry st' ! nat k = entry st ! nat k)
       \<and> (alloc_count st \<le> Max (call_size ` set calls) + ALLOC_OVERSHOOT cfg
                                + ALLOC_EMERGENCY_MARGIN cfg + 1
            \<longrightarrow> alloc_count st' \<le> Max (call_size ` set calls) + ALLOC_OVERSHOOT cfg
                                + ALLOC_EMERGENCY_MARGIN cfg + 1)"
proof (intro conjI allI impI)
  fix k assume k: "0 \<le> k \<and> k < entry_count st \<and> k < Min (call_size ` set calls)"
  have "\<forall>c \<in> set calls. k < call_size c"
    using k ne by simp
  then show "entry st' ! nat k = entry st ! nat k"
    using stack_ToSize_seq_slots [OF cfg wf run] k by blast
next
  let ?B = "Max (call_size ` set calls) + ALLOC_OVERSHOOT cfg + ALLOC_EMERGENCY_MARGIN cfg + 1"
  assume a: "alloc_count st \<le> ?B"
  have "\<forall>c \<in> set calls. call_size c + ALLOC_OVERSHOOT cfg + ALLOC_EMERGENCY_MARGIN cfg \<le> ?B"
  proof
    fix c assume "c \<in> set calls"
    then have "call_size c \<le> Max (call_size ` set calls)" by simp
    then show "call_size c + ALLOC_OVERSHOOT cfg + ALLOC_EMERGENCY_MARGIN cfg \<le> ?B" by simp
  qed
  then show "alloc_count st' \<le> ?B"
    using stack_ToSize_seq_alloc [OF cfg wf run a] by blast
qed

lemma example_tosize_run:
  "stack_ToSize_seq example_stack_config example_stack example_tosize_calls = Inr example_stack_final"
  by (simp add: example_stack_config_def example_stack_def example_tosize_calls_def
      example_stack_final_def stack_ToSize_def stack_Shrink_def is_constpreallocstr_def Let_def
      list_ex_iff)

lemma example_tosize_minmax:
  "Min (call_size ` set example_tosize_calls) = 3" "Max (call_size ` set example_tosize_calls) = 13"
  by (simp_all add: example_tosize_calls_def)

theorem stack_ToSize_seq_witness:
  "stack_config_ok example_stack_config \<and> stack_wf example_stack \<and> example_tosize_calls \<noteq> []
   \<and> stack_ToSize_seq example_stack_config example_stack example_tosize_calls = Inr example_stack_final
   \<and> entry example_stack_final ! nat 2 = entry example_stack ! nat 2
   \<and> alloc_count example_stack_final \<le> 13 + 2 + 1 + 1"
proof -
  have c: "stack_config_ok example_stack_config"
    by (simp add: stack_config_ok_def example_stack_config_def)
  have w: "stack_wf example_stack" by (simp add: stack_wf_def example_stack_def)
  have n: "example_tosize_calls \<noteq> []" by (simp add: example_tosize_calls_def)
  note t = stack_ToSize_seq_preserves_and_bounds [OF c w n example_tosize_run]
  have "entry example_stack_final ! nat 2 = entry example_stack ! nat 2"
    using t [THEN conjunct1, rule_format, of 2] by (simp add: example_tosize_minmax example_stack_def)
  moreover have "alloc_count example_stack_final \<le> 13 + 2 + 1 + 1"
    using t [THEN conjunct2] by (simp add: example_tosize_minmax example_stack_def example_stack_config_def)
  ultimately show ?thesis using c w n example_tosize_run by simp
qed


section \<open>Results for bytecode.c\<close>

lemma bucket_scan_end:
  "bucket_scan xs n i = ScanEnd k \<Longrightarrow>
     \<exists>j. k = i + j \<and> j < length xs \<and> nameid (xs ! j) < 0
         \<and> (\<forall>l < j. nameid (xs ! l) \<ge> 0 \<and> nameid (xs ! l) \<noteq> n)"
proof (induction xs arbitrary: i)
  case Nil
  then show ?case by simp
next
  case (Cons r rs)
  show ?case
  proof (cases "nameid r \<ge> 0")
    case False
    with Cons.prems have "k = i" by simp
    with False show ?thesis by (intro exI [of _ 0]) simp
  next
    case True
    with Cons.prems have ne: "nameid r \<noteq> n" and rest: "bucket_scan rs n (Suc i) = ScanEnd k"
      by (auto split: if_splits)
    from Cons.IH [OF rest] obtain j where j: "k = Suc i + j" "j < length rs" "nameid (rs ! j) < 0"
      "\<forall>l < j. nameid (rs ! l) \<ge> 0 \<and> nameid (rs ! l) \<noteq> n" by blast
    show ?thesis
    proof (intro exI [of _ "Suc j"] conjI allI impI)
      fix l assume "l < Suc j"
      then show "0 \<le> nameid ((r # rs) ! l)" using True j(4) by (cases l) auto
    next
      fix l assume "l < Suc j"
      then show "nameid ((r # rs) ! l) \<noteq> n" using ne j(4) by (cases l) auto
    qed (use j in auto)
  qed
qed

lemma bucket_scan_end_wf:
  assumes "bucket_wf b" "bucket_scan b n 0 = ScanEnd k"
  shows "k < length b \<and> nameid (b ! k) = -1 \<and> (\<forall>j < k. nameid (b ! j) \<ge> 0)
         \<and> distinct (map nameid (take k b)) \<and> n \<notin> set (map nameid (take k b))"
proof -
  from bucket_scan_end [OF assms(2)] have k: "k < length b" "nameid (b ! k) < 0"
    "\<forall>l < k. nameid (b ! l) \<ge> 0 \<and> nameid (b ! l) \<noteq> n" by auto
  from assms(1) obtain k0 where k0: "k0 < length b" "nameid (b ! k0) = -1"
    "\<forall>j < k0. nameid (b ! j) \<ge> 0" "distinct (map nameid (take k0 b))"
    unfolding bucket_wf_def by blast
  have "k0 = k"
  proof (rule ccontr)
    assume "k0 \<noteq> k"
    then consider "k0 < k" | "k < k0" by linarith
    then show False
    proof cases
      case 1 then show ?thesis using k(3) k0(2) by force
    next
      case 2 then show ?thesis using k0(3) k(2) by force
    qed
  qed
  moreover have "n \<notin> set (map nameid (take k b))"
  proof
    assume "n \<in> set (map nameid (take k b))"
    then obtain l where "l < k" "nameid (b ! l) = n"
      using k(1) by (auto simp: in_set_conv_nth)
    then show False using k(3) by blast
  qed
  ultimately show ?thesis using k0 by simp
qed

lemma bucket_wf_realloc:
  assumes "bucket_wf b" "bucket_scan b n 0 = ScanEnd k"
  shows "bucket_wf (realloc_bucket b (k + 2) junk)"
proof -
  from bucket_scan_end_wf [OF assms] have k: "k < length b" "nameid (b ! k) = -1"
    "\<forall>j < k. nameid (b ! j) \<ge> 0" "distinct (map nameid (take k b))" by auto
  let ?b = "realloc_bucket b (k + 2) junk"
  have nth: "\<And>j. j \<le> k \<Longrightarrow> ?b ! j = b ! j"
    using k(1) by (simp add: realloc_bucket_def nth_append)
  have len: "k < length ?b" using k(1) by (simp add: realloc_bucket_def)
  have tk: "take k ?b = take k b" using k(1) by (simp add: realloc_bucket_def)
  show ?thesis unfolding bucket_wf_def
    using len nth k tk by (intro exI [of _ k]) simp
qed

lemma bucket_wf_insert:
  assumes "bucket_wf b" "bucket_scan b n 0 = ScanEnd k" "n \<ge> 0"
  shows "bucket_wf ((realloc_bucket b (k + 2) junk)
           [k + 1 := \<lparr>nameid = -1, methodorvaridx = -1\<rparr>,
            k := \<lparr>nameid = n, methodorvaridx = v\<rparr>])"
proof -
  from bucket_scan_end_wf [OF assms(1,2)] have k: "k < length b" "nameid (b ! k) = -1"
    "\<forall>j < k. nameid (b ! j) \<ge> 0" "distinct (map nameid (take k b))"
    "n \<notin> set (map nameid (take k b))" by auto
  let ?r = "realloc_bucket b (k + 2) junk"
  let ?b = "?r[k + 1 := \<lparr>nameid = -1, methodorvaridx = -1\<rparr>, k := \<lparr>nameid = n, methodorvaridx = v\<rparr>]"
  have lenr: "length ?r = k + 2" using k(1) by (simp add: realloc_bucket_def)
  have tkr: "take k ?r = take k b" using k(1) by (simp add: realloc_bucket_def)
  have tk: "take (Suc k) ?b = take k b @ [\<lparr>nameid = n, methodorvaridx = v\<rparr>]"
    using lenr tkr by (simp add: take_Suc_conv_app_nth)
  have "Suc k < length ?b" using lenr by simp
  moreover have "nameid (?b ! Suc k) = -1" using lenr by simp
  moreover have "\<forall>j < Suc k. nameid (?b ! j) \<ge> 0"
  proof (intro allI impI)
    fix j assume "j < Suc k"
    then have "j < k \<or> j = k" by linarith
    then show "nameid (?b ! j) \<ge> 0"
    proof
      assume j: "j < k"
      then have "?b ! j = ?r ! j" by simp
      also have "\<dots> = b ! j" using j k(1) by (simp add: realloc_bucket_def nth_append)
      finally show ?thesis using k(3) j by simp
    next
      assume "j = k" then show ?thesis using lenr assms(3) by simp
    qed
  qed
  moreover have "distinct (map nameid (take (Suc k) ?b))"
    using tk k(4,5) by simp
  ultimately show ?thesis unfolding bucket_wf_def by (intro exI [of _ "Suc k"]) simp
qed




lemma bucket_wf_list_update:
  assumes "\<forall>b \<in> set h. bucket_wf b" "bucket_wf b'"
  shows "\<forall>b \<in> set (h[bi := b']). bucket_wf b"
  using assms by (auto dest!: set_update_subset_insert [THEN subsetD])

lemma RegisterClassMemberEx_buckets_wf:
  assumes run: "h64program_RegisterClassMemberEx cfg p class_id name func_idx junk orc = Inr (r, p', orc')"
    and i: "i < length (classes p)" and wf: "class_buckets_wf cfg (classes p ! i)"
  shows "i < length (classes p') \<and> class_buckets_wf cfg (classes p' ! i)"
proof -
  obtain nid syms1 orc1 where intern:
    "h64debugsymbols_MemberNameToMemberNameId (symbols p) name True orc = (nid, syms1, orc1)"
    by (cases "h64debugsymbols_MemberNameToMemberNameId (symbols p) name True orc") auto
  let ?cls = "classes p ! nat class_id"
  let ?bi = "nat (c_rem nid (H64CLASS_HASH_SIZE cfg))"
  let ?b = "global_name_to_member_hashmap ?cls ! ?bi"
  show ?thesis
  proof (cases "nid < 0 \<or> (\<exists>ix. bucket_scan ?b nid 0 = ScanFound ix)")
    case True
    then have "classes p' = classes p"
      using run intern unfolding h64program_RegisterClassMemberEx_def Let_def
      by (auto split: if_splits scan_result.splits)
    then show ?thesis using i wf by simp
  next
    case False
    then have nid: "0 \<le> nid" by simp
    from run intern nid False obtain k where cid: "0 \<le> class_id" "nat class_id < length (classes p)"
      and bi: "?bi < length (global_name_to_member_hashmap ?cls)"
      and scan: "bucket_scan ?b nid 0 = ScanEnd k"
      unfolding h64program_RegisterClassMemberEx_def Let_def
      by (auto split: if_splits scan_result.splits)
    have len: "length (classes p') = length (classes p)"
      using run intern nid cid bi scan
      unfolding h64program_RegisterClassMemberEx_def Let_def set_class_def
      by (auto split: if_splits prod.splits bool.splits)
    have other: "nat class_id \<noteq> i \<Longrightarrow> classes p' ! i = classes p ! i"
      using run intern nid cid bi scan
      unfolding h64program_RegisterClassMemberEx_def Let_def set_class_def
      by (auto split: if_splits prod.splits bool.splits)
    have same: "nat class_id = i \<Longrightarrow> class_buckets_wf cfg (classes p' ! i)"
    proof -
      assume eq: "nat class_id = i"
      have w: "length (global_name_to_member_hashmap ?cls) = nat (H64CLASS_HASH_SIZE cfg)"
        "\<forall>b \<in> set (global_name_to_member_hashmap ?cls). bucket_wf b"
        using wf eq by (simp_all add: class_buckets_wf_def)
      have b: "bucket_wf ?b" using w(2) bi by simp
      note r1 = bucket_wf_list_update [OF w(2) bucket_wf_realloc [OF b scan]]
      note r2 = bucket_wf_list_update [OF w(2) bucket_wf_insert [OF b scan nid]]
      show ?thesis
        using run intern nid cid bi scan eq w r1 r2
        unfolding h64program_RegisterClassMemberEx_def Let_def set_class_def class_buckets_wf_def
        by (auto split: if_splits prod.splits bool.splits)
    qed
    show ?thesis using len other same i wf by (cases "nat class_id = i") simp_all
  qed
qed


lemma RegisterClassMember_seq_buckets_wf:
  "RegisterClassMember_seq cfg p calls = Inr p' \<Longrightarrow> i < length (classes p) \<Longrightarrow>
   class_buckets_wf cfg (classes p ! i) \<Longrightarrow>
   i < length (classes p') \<and> class_buckets_wf cfg (classes p' ! i)"
proof (induction calls arbitrary: p)
  case Nil
  then show ?case by simp
next
  case (Cons c cs)
  from Cons.prems(1) obtain r p1 orc1 where
    step: "h64program_RegisterClassMemberEx cfg p (mc_class_id c) (mc_name c) (mc_func_idx c)
             (mc_junk c) (mc_outcomes c) = Inr (r, p1, orc1)"
    and rest: "RegisterClassMember_seq cfg p1 cs = Inr p'"
    by (auto split: sum.splits)
  from RegisterClassMemberEx_buckets_wf [OF step Cons.prems(2,3)]
  show ?case using Cons.IH [OF rest] by blast
qed

lemma bucket_wf_sentinel: "bucket_wf [\<lparr>nameid = -1, methodorvaridx = -1\<rparr>]"
  by (simp add: bucket_wf_def)

lemma alloc_buckets_wf:
  "alloc_buckets n orc = (Some bs, orc') \<Longrightarrow> length bs = n \<and> (\<forall>b \<in> set bs. bucket_wf b)"
  by (induction n arbitrary: orc bs orc')
     (auto split: prod.splits bool.splits option.splits simp: bucket_wf_sentinel)

lemma bytecode_fileuriindex_frame:
  assumes "bytecode_fileuriindex cfg p u orc = Inr (idx, p', orc')"
  shows "func p' = func p \<and> classes p' = classes p \<and> globalvar p' = globalvar p
         \<and> main_func_index p' = main_func_index p
         \<and> globalinit_func_index p' = globalinit_func_index p
         \<and> modules (symbols p') = modules (symbols p)
         \<and> member_names (symbols p') = member_names (symbols p)"
  using assms unfolding bytecode_fileuriindex_def
  by (auto split: option.splits sum.splits if_splits prod.splits bool.splits)

lemma get_msymbols_frame:
  assumes "get_msymbols p mp lib orc = Inr (r, p', orc')"
  shows "func p' = func p \<and> classes p' = classes p \<and> globalvar p' = globalvar p
         \<and> main_func_index p' = main_func_index p
         \<and> globalinit_func_index p' = globalinit_func_index p
         \<and> fileuri (symbols p') = fileuri (symbols p)
         \<and> member_names (symbols p') = member_names (symbols p)"
  using assms unfolding get_msymbols_def h64debugsymbols_GetModule_def
  by (auto split: option.splits sum.splits if_splits prod.splits bool.splits)

lemma AddClass_buckets_wf:
  assumes "h64program_AddClass cfg p name uri mp lib orc = Inr (cid, p1, orc1)" "0 \<le> cid"
  shows "nat cid < length (classes p1) \<and> class_buckets_wf cfg (classes p1 ! nat cid)"
  using assms
  unfolding h64program_AddClass_def AddClass_symbol_def Let_def class_buckets_wf_def
  by (auto split: prod.splits bool.splits option.splits sum.splits if_splits
      simp: set_module_def nth_append classsymboloom_def
      dest!: alloc_buckets_wf bytecode_fileuriindex_frame get_msymbols_frame)

text \<open>
  Claim C10. A class that \<open>h64program_AddClass\<close> has created has
  \<open>H64CLASS_HASH_SIZE\<close> buckets, and after every sequence of
  \<open>h64program_RegisterClassMemberEx\<close> calls (on any class, returning 0 or 1,
  whatever the uninitialised memory holds) each of its buckets still has the
  sentinel with name id -1, only non-negative name ids before it, and no name
  id twice.
\<close>

theorem class_buckets_sentinel_terminated:
  assumes "h64program_AddClass cfg p name uri mp lib orc = Inr (cid, p1, orc1)" "0 \<le> cid"
    and "RegisterClassMember_seq cfg p1 calls = Inr p2"
  shows "nat cid < length (classes p2) \<and> class_buckets_wf cfg (classes p2 ! nat cid)"
  using RegisterClassMember_seq_buckets_wf [OF assms(3)] AddClass_buckets_wf [OF assms(1,2)]
  by blast


lemma example_AddClass:
  "h64program_AddClass example_config empty_program ''C'' None None None []
   = Inr (0, example_class_program, [])"
  by (simp add: example_class_program_def h64program_AddClass_def AddClass_symbol_def example_config_def
      empty_program_def empty_symbols_def get_msymbols_def h64debugsymbols_GetBuiltinModule_def
      hash_MapSet_def set_module_def Let_def numeral_eq_Suc)

lemma example_class_program_classes:
  "classes example_class_program =
     [\<lparr>base_class_global_id = -1, methods_count = 0, method_global_name_idx = [],
       method_func_idx = [], vars_count = 0, vars_global_name_idx = [],
       hasvarinitfunc = False,
       global_name_to_member_hashmap = replicate 4 [\<lparr>nameid = -1, methodorvaridx = -1\<rparr>]\<rparr>]"
  "member_names (symbols example_class_program) = []"
  by (simp_all add: example_class_program_def h64program_AddClass_def AddClass_symbol_def example_config_def
      empty_program_def empty_symbols_def get_msymbols_def h64debugsymbols_GetBuiltinModule_def
      hash_MapSet_def set_module_def Let_def numeral_eq_Suc)

definition example_member_calls :: "member_call list" where
  "example_member_calls =
     [\<lparr>mc_class_id = 0, mc_name = ''a'', mc_func_idx = 3, mc_junk = example_junk, mc_outcomes = []\<rparr>,
      \<lparr>mc_class_id = 0, mc_name = ''a'', mc_func_idx = -1, mc_junk = example_junk, mc_outcomes = []\<rparr>,
      \<lparr>mc_class_id = 0, mc_name = ''b'', mc_func_idx = -1, mc_junk = example_junk,
        mc_outcomes = [True, True, False]\<rparr>,
      \<lparr>mc_class_id = 0, mc_name = ''e'', mc_func_idx = -1, mc_junk = example_junk, mc_outcomes = []\<rparr>]"

definition example_members_program :: h64program where
  "example_members_program =
     (case RegisterClassMember_seq example_config example_class_program example_member_calls of
        Inr p \<Rightarrow> p
      | Inl e \<Rightarrow> empty_program)"

lemma example_member_calls_run:
  "RegisterClassMember_seq example_config example_class_program example_member_calls
   = Inr example_members_program"
  by (simp add: example_members_program_def example_member_calls_def
      h64program_RegisterClassMemberEx_def h64debugsymbols_MemberNameToMemberNameId_def
      example_class_program_classes example_config_def example_junk_def c_rem_def set_class_def
      realloc_bucket_def Let_def numeral_eq_Suc)

theorem class_buckets_sentinel_terminated_witness:
  "h64program_AddClass example_config empty_program ''C'' None None None []
     = Inr (0, example_class_program, [])
   \<and> RegisterClassMember_seq example_config example_class_program example_member_calls
     = Inr example_members_program
   \<and> nat 0 < length (classes example_members_program)
   \<and> class_buckets_wf example_config (classes example_members_program ! nat 0)"
  using class_buckets_sentinel_terminated [OF example_AddClass _ example_member_calls_run]
    example_AddClass example_member_calls_run
  by simp

text \<open>
  Claim C3. Two calls of \<open>bytecode_fileuriindex\<close> with URIs that normalize to
  the same string \<open>n\<close>, both successful: the second call returns the index
  after the first one's, and the list has gained \<open>n\<close> twice.
\<close>

theorem bytecode_fileuriindex_twice_appends_twice:
  assumes "uri_Normalize cfg u1 = Some n" "uri_Normalize cfg u2 = Some n"
    and "bytecode_fileuriindex cfg p u1 orc = Inr (i1, p1, orc1)" "0 \<le> i1"
    and "bytecode_fileuriindex cfg p1 u2 orc1 = Inr (i2, p2, orc2)" "0 \<le> i2"
  shows "i2 = i1 + 1 \<and> fileuri (symbols p2) = fileuri (symbols p) @ [n, n]"
  using assms unfolding bytecode_fileuriindex_def fileuri_search_def Let_def
  by (auto split: prod.splits bool.splits if_splits)

theorem bytecode_fileuriindex_twice_witness:
  "bytecode_fileuriindex example_config empty_program ''file:///a.h64'' [] = Inr (0, example_fileuri_program, [])
   \<and> bytecode_fileuriindex example_config example_fileuri_program ''file:///a.h64'' [] = Inr (1, example_fileuri_program2, [])
   \<and> fileuri (symbols example_fileuri_program2) = [''file:///a.h64'', ''file:///a.h64'']"
proof -
  have n: "uri_Normalize example_config ''file:///a.h64'' = Some ''file:///a.h64''"
    by (simp add: example_config_def)
  have r1: "bytecode_fileuriindex example_config empty_program ''file:///a.h64'' []
            = Inr (0, example_fileuri_program, [])"
    by (simp add: bytecode_fileuriindex_def fileuri_search_def example_config_def
        example_fileuri_program_def empty_program_def empty_symbols_def)
  have r2: "bytecode_fileuriindex example_config example_fileuri_program ''file:///a.h64'' []
            = Inr (1, example_fileuri_program2, [])"
    by (simp add: bytecode_fileuriindex_def fileuri_search_def example_config_def
        example_fileuri_program_def example_fileuri_program2_def empty_program_def empty_symbols_def)
  from bytecode_fileuriindex_twice_appends_twice [OF n n r1 _ r2]
  have "fileuri (symbols example_fileuri_program2) = fileuri (symbols empty_program) @ [''file:///a.h64'', ''file:///a.h64'']"
    by simp
  then show ?thesis using r1 r2 by (simp add: empty_program_def empty_symbols_def)
qed

text \<open>
  Claim C1. On a new class, the method \<open>m\<close> is registered with the function
  index 0: the registration succeeds, the name gets the id 0, and the lookup
  of that id answers with variable id 0 and function id -1.
\<close>

theorem method_with_func_idx_0_looked_up_as_variable:
  "h64program_RegisterClassMemberEx example_config example_class_program 0 ''m'' 0 example_junk []
     = Inr (1, example_method0_program, [])
   \<and> h64debugsymbols_MemberNameToMemberNameId (symbols example_method0_program) ''m'' False []
     = (0, symbols example_method0_program, [])
   \<and> h64program_LookupClassMember example_config example_method0_program 0 0 = Inr (0, -1)"
  by (simp add: example_method0_program_def h64program_RegisterClassMemberEx_def
      h64program_LookupClassMember_def h64debugsymbols_MemberNameToMemberNameId_def
      example_class_program_classes example_config_def c_rem_def set_class_def
      realloc_bucket_def Let_def numeral_eq_Suc)

text \<open>
  Claim C9. On a program whose only class is new and that has no member
  names, the name \<open>nosuch\<close> has no id (the lookup of the id gives -1), and
  \<open>h64program_LookupClassMemberByname\<close> goes on to index the member hashmap
  with \<open>-1 % H64CLASS_HASH_SIZE = -1\<close>, outside the hashmap.
\<close>

theorem LookupClassMemberByname_unknown_name_reads_hashmap:
  "h64debugsymbols_MemberNameToMemberNameId (symbols example_class_program) ''nosuch'' False []
     = (-1, symbols example_class_program, [])
   \<and> h64program_LookupClassMemberByname example_config example_class_program 0 ''nosuch''
     = Inl (BucketIndexOutOfRange (-1))"
  by (simp add: h64program_LookupClassMemberByname_def h64program_LookupClassMember_def
      h64debugsymbols_MemberNameToMemberNameId_def example_class_program_classes
      example_config_def c_rem_def Let_def)



subsection \<open>Failed registrations\<close>

lemma module_index_less: "module_index ms mp lib = Some i \<Longrightarrow> i < length ms"
  by (induction ms arbitrary: i) (auto split: if_splits)

lemma fileuriindex_frame:
  assumes "bytecode_fileuriindex cfg p u orc = Inr (idx, p', orc')"
  shows "func p' = func p \<and> globalvar p' = globalvar p \<and> classes p' = classes p
         \<and> main_func_index p' = main_func_index p
         \<and> globalinit_func_index p' = globalinit_func_index p
         \<and> modules (symbols p') = modules (symbols p)
         \<and> fileuri_kept_or_appended cfg (Some u) p p'"
  using assms unfolding bytecode_fileuriindex_def fileuri_kept_or_appended_def
  by (auto split: option.splits sum.splits if_splits prod.splits bool.splits)

lemma take_modules_symbol_tables:
  "take (length (modules (symbols p))) (modules (symbols p')) = modules (symbols p) \<Longrightarrow>
   take (length (symbol_tables p)) (symbol_tables p') = symbol_tables p"
  unfolding symbol_tables_def by (metis length_map take_map)

lemma msymbols_frame:
  assumes "get_msymbols p mp lib orc = Inr (r, p', orc')"
  shows "func p' = func p \<and> globalvar p' = globalvar p \<and> classes p' = classes p
         \<and> main_func_index p' = main_func_index p
         \<and> globalinit_func_index p' = globalinit_func_index p
         \<and> fileuri (symbols p') = fileuri (symbols p)
         \<and> take (length (modules (symbols p))) (modules (symbols p')) = modules (symbols p)
         \<and> take (length (symbol_tables p)) (symbol_tables p') = symbol_tables p
         \<and> length (modules (symbols p)) \<le> length (modules (symbols p'))
         \<and> (\<forall>mi. r = Some mi \<longrightarrow> mi < length (modules (symbols p')))"
proof -
  have "take (length (modules (symbols p))) (modules (symbols p')) = modules (symbols p)"
    using assms unfolding get_msymbols_def h64debugsymbols_GetModule_def
    by (auto split: option.splits sum.splits if_splits prod.splits bool.splits)
  then show ?thesis
    using assms take_modules_symbol_tables [of p p']
    unfolding get_msymbols_def h64debugsymbols_GetModule_def h64debugsymbols_GetBuiltinModule_def
    by (auto split: option.splits sum.splits if_splits prod.splits bool.splits
        dest: module_index_less)
qed

lemma bucket_contents_realloc:
  assumes "bucket_scan b n 0 = ScanEnd k"
  shows "bucket_contents (realloc_bucket b (k + 2) junk) = bucket_contents b"
proof -
  from bucket_scan_end [OF assms] have k: "k < length b" "nameid (b ! k) < 0"
    "\<forall>l < k. nameid (b ! l) \<ge> 0" by auto
  let ?r = "realloc_bucket b (k + 2) junk"
  have "takeWhile (\<lambda>r. nameid r \<ge> 0) b = take k b"
    using k by (intro takeWhile_eq_take_P_nth) auto
  moreover have "takeWhile (\<lambda>r. nameid r \<ge> 0) ?r = take k ?r"
    using k by (intro takeWhile_eq_take_P_nth) (auto simp: realloc_bucket_def nth_append)
  moreover have "take k ?r = take k b" using k(1) by (simp add: realloc_bucket_def)
  ultimately show ?thesis by (simp add: bucket_contents_def)
qed

lemma RegisterClassMemberEx_frame0:
  assumes run: "h64program_RegisterClassMemberEx cfg p class_id name func_idx junk orc = Inr (0, p', orc')"
  shows "func p' = func p \<and> globalvar p' = globalvar p
         \<and> class_views p' = class_views p
         \<and> main_func_index p' = main_func_index p
         \<and> globalinit_func_index p' = globalinit_func_index p
         \<and> modules (symbols p') = modules (symbols p)
         \<and> fileuri (symbols p') = fileuri (symbols p)"
proof -
  obtain nid syms1 orc1 where intern:
    "h64debugsymbols_MemberNameToMemberNameId (symbols p) name True orc = (nid, syms1, orc1)"
    by (cases "h64debugsymbols_MemberNameToMemberNameId (symbols p) name True orc") auto
  have syms1: "modules syms1 = modules (symbols p)" "fileuri syms1 = fileuri (symbols p)"
    using intern unfolding h64debugsymbols_MemberNameToMemberNameId_def
    by (auto split: option.splits if_splits prod.splits bool.splits)
  let ?cls = "classes p ! nat class_id"
  let ?bi = "nat (c_rem nid (H64CLASS_HASH_SIZE cfg))"
  let ?b = "global_name_to_member_hashmap ?cls ! ?bi"
  show ?thesis
  proof (cases "nid < 0 \<or> (\<exists>ix. bucket_scan ?b nid 0 = ScanFound ix)")
    case True
    then have "p' = p\<lparr>symbols := syms1\<rparr>"
      using run intern unfolding h64program_RegisterClassMemberEx_def Let_def
      by (auto split: if_splits scan_result.splits)
    then show ?thesis using syms1 by (simp add: class_views_def)
  next
    case False
    then have nid: "0 \<le> nid" by simp
    from run intern nid False obtain k where cid: "0 \<le> class_id" "nat class_id < length (classes p)"
      and bi: "?bi < length (global_name_to_member_hashmap ?cls)"
      and scan: "bucket_scan ?b nid 0 = ScanEnd k"
      unfolding h64program_RegisterClassMemberEx_def Let_def
      by (auto split: if_splits scan_result.splits)
    let ?c1 = "?cls\<lparr>global_name_to_member_hashmap :=
                 (global_name_to_member_hashmap ?cls)[?bi := realloc_bucket ?b (k + 2) junk]\<rparr>"
    have cases: "p' = p\<lparr>symbols := syms1\<rparr>
                 \<or> p' = set_class (p\<lparr>symbols := syms1\<rparr>) (nat class_id) ?c1"
      using run intern nid cid bi scan
      unfolding h64program_RegisterClassMemberEx_def Let_def
      by (auto split: if_splits prod.splits bool.splits)
    have "map bucket_contents ((global_name_to_member_hashmap ?cls)[?bi := realloc_bucket ?b (k + 2) junk])
          = map bucket_contents (global_name_to_member_hashmap ?cls)"
      using bi bucket_contents_realloc [OF scan] by (simp add: map_update list_update_same_conv)
    then have "class_view ?c1 = class_view ?cls" by (simp add: class_view_def)
    then have "map class_view ((classes p)[nat class_id := ?c1]) = map class_view (classes p)"
      using cid(2) by (simp add: map_update list_update_same_conv)
    then show ?thesis using cases syms1 by (auto simp: class_views_def set_class_def)
  qed
qed

lemma funcsymboloom_frame:
  assumes "mi < length (modules (symbols p))"
  shows "func (funcsymboloom p name mi) = func p
         \<and> globalvar (funcsymboloom p name mi) = globalvar p
         \<and> classes (funcsymboloom p name mi) = classes p
         \<and> main_func_index (funcsymboloom p name mi) = main_func_index p
         \<and> globalinit_func_index (funcsymboloom p name mi) = globalinit_func_index p
         \<and> symbol_tables (funcsymboloom p name mi) = symbol_tables p
         \<and> fileuri (symbols (funcsymboloom p name mi)) = fileuri (symbols p)"
  using assms unfolding funcsymboloom_def Let_def set_module_def module_tables_def symbol_tables_def
  by (cases name) (simp_all add: map_update list_update_same_conv)

lemma classsymboloom_frame:
  assumes "mi < length (modules (symbols p))"
  shows "func (classsymboloom p name mi) = func p
         \<and> globalvar (classsymboloom p name mi) = globalvar p
         \<and> classes (classsymboloom p name mi) = classes p
         \<and> main_func_index (classsymboloom p name mi) = main_func_index p
         \<and> globalinit_func_index (classsymboloom p name mi) = globalinit_func_index p
         \<and> symbol_tables (classsymboloom p name mi) = symbol_tables p
         \<and> fileuri (symbols (classsymboloom p name mi)) = fileuri (symbols p)"
  using assms unfolding classsymboloom_def Let_def set_module_def module_tables_def symbol_tables_def
  by (simp add: map_update list_update_same_conv)

lemma RegisterCFunction_symbol_frame:
  assumes run: "RegisterCFunction_symbol cfg p mi name arg_count arg_kwarg_name cls junk orc
                = Inr (False, p', orc')"
    and mi: "mi < length (modules (symbols p))"
  shows "func p' = func p \<and> globalvar p' = globalvar p
         \<and> class_views p' = class_views p
         \<and> main_func_index p' = main_func_index p
         \<and> globalinit_func_index p' = globalinit_func_index p
         \<and> symbol_tables p' = symbol_tables p
         \<and> length (modules (symbols p')) = length (modules (symbols p))
         \<and> fileuri (symbols p') = fileuri (symbols p)"
  using run mi
  unfolding RegisterCFunction_symbol_def Let_def
  by (auto split: if_splits prod.splits bool.splits option.splits sum.splits
      dest!: RegisterClassMemberEx_frame0
      simp: set_module_def module_tables_def symbol_tables_def class_views_def map_update
            list_update_same_conv)

lemma AddClass_symbol_frame:
  assumes run: "AddClass_symbol cfg p mi name orc = (res, p', orc')"
    and mi: "mi < length (modules (symbols p))"
  shows "func p' = func p \<and> globalvar p' = globalvar p
         \<and> classes p' = classes p
         \<and> main_func_index p' = main_func_index p
         \<and> globalinit_func_index p' = globalinit_func_index p
         \<and> symbol_tables p' = symbol_tables p
         \<and> length (modules (symbols p')) = length (modules (symbols p))
         \<and> fileuri (symbols p') = fileuri (symbols p)"
  using run mi
  unfolding AddClass_symbol_def Let_def
  by (auto split: if_splits prod.splits bool.splits option.splits sum.splits
      simp: set_module_def module_tables_def symbol_tables_def map_update
            list_update_same_conv)

lemma fileuri_kept_or_appended_None:
  "fileuri_kept_or_appended cfg None p p' = (fileuri (symbols p') = fileuri (symbols p))"
  by (simp add: fileuri_kept_or_appended_def)

lemma fileuri_kept_or_appended_eq:
  "fileuri_kept_or_appended cfg uri p p1 \<Longrightarrow> fileuri (symbols p2) = fileuri (symbols p1) \<Longrightarrow>
   fileuri_kept_or_appended cfg uri p p2"
  by (auto simp: fileuri_kept_or_appended_def split: option.splits)

lemma fileuri_kept_or_appended_refl: "fileuri_kept_or_appended cfg uri p p"
  by (simp add: fileuri_kept_or_appended_def)

lemma prepared_refl: "prepared cfg uri p p"
  by (simp add: prepared_def fileuri_kept_or_appended_refl)

lemma prepared_fileuri:
  assumes "bytecode_fileuriindex cfg p u orc = Inr (idx, p', orc')"
  shows "prepared cfg (Some u) p p'"
  using fileuriindex_frame [OF assms] by (simp add: prepared_def)

lemma prepared_msymbols:
  assumes "prepared cfg uri p p1" "get_msymbols p1 mp lib orc = Inr (r, p2, orc')"
  shows "prepared cfg uri p p2"
proof -
  note f = msymbols_frame [OF assms(2)]
  have m1: "take (length (modules (symbols p))) (modules (symbols p1)) = modules (symbols p)"
    and len: "length (modules (symbols p)) \<le> length (modules (symbols p1))"
    using assms(1) by (simp_all add: prepared_def)
  have len2: "length (modules (symbols p1)) \<le> length (modules (symbols p2))"
    using f by simp
  have "take (length (modules (symbols p))) (modules (symbols p2))
        = take (length (modules (symbols p))) (take (length (modules (symbols p1))) (modules (symbols p2)))"
    using len by (simp add: min_def)
  also have "\<dots> = modules (symbols p)" using f m1 by simp
  finally have t: "take (length (modules (symbols p))) (modules (symbols p2)) = modules (symbols p)" .
  show ?thesis
    using assms(1) f t len len2 fileuri_kept_or_appended_eq [of cfg uri p p1 p2]
    by (simp add: prepared_def)
qed

lemma prepared_kept:
  assumes "prepared cfg uri p p'"
  shows "tables_kept p p' \<and> fileuri_kept_or_appended cfg uri p p'
         \<and> take (length (modules (symbols p))) (modules (symbols p')) = modules (symbols p)"
  using assms take_modules_symbol_tables [of p p']
  by (simp add: prepared_def tables_kept_def class_views_def)

lemma prepared_maps:
  assumes "prepared cfg uri p p2"
    and "func p' = func p2" "globalvar p' = globalvar p2" "class_views p' = class_views p2"
    "main_func_index p' = main_func_index p2" "globalinit_func_index p' = globalinit_func_index p2"
    "symbol_tables p' = symbol_tables p2" "fileuri (symbols p') = fileuri (symbols p2)"
  shows "tables_kept p p' \<and> fileuri_kept_or_appended cfg uri p p'"
  using assms prepared_kept [OF assms(1)] fileuri_kept_or_appended_eq [of cfg uri p p2 p']
  by (simp add: tables_kept_def)

lemma AddGlobalvar_failure:
  assumes run: "h64program_AddGlobalvar cfg p name is_const uri mp lib orc = Inr (r, p', orc')"
    and r: "r < 0"
  shows "tables_kept p p' \<and> fileuri_kept_or_appended cfg uri p p'
         \<and> take (length (modules (symbols p))) (modules (symbols p')) = modules (symbols p)"
proof -
  have "prepared cfg uri p p'"
    using run r unfolding h64program_AddGlobalvar_def Let_def
    by (auto split: prod.splits bool.splits option.splits sum.splits if_splits
        intro: prepared_refl prepared_fileuri prepared_msymbols [OF prepared_refl]
               prepared_msymbols [OF prepared_fileuri])
  then show ?thesis by (rule prepared_kept)
qed

lemma AddClass_oom_path:
  assumes sym: "AddClass_symbol cfg p2 mi name orc = (res, p3, orc')"
    and ms: "get_msymbols p1 mp lib orcA = Inr (Some mi, p2, orcB)"
    and prep: "prepared cfg uri p p1"
  shows "tables_kept p (classsymboloom p3 name mi)
         \<and> fileuri_kept_or_appended cfg uri p (classsymboloom p3 name mi)"
proof -
  have mi: "mi < length (modules (symbols p2))" using msymbols_frame [OF ms] by simp
  note f = AddClass_symbol_frame [OF sym mi]
  have mi3: "mi < length (modules (symbols p3))" using f mi by simp
  note g = classsymboloom_frame [OF mi3, of name]
  show ?thesis
    by (rule prepared_maps [OF prepared_msymbols [OF prep ms]])
       (use f g in \<open>simp_all add: class_views_def\<close>)
qed

lemma AddClass_failure:
  assumes run: "h64program_AddClass cfg p name uri mp lib orc = Inr (r, p', orc')"
    and r: "r < 0"
  shows "tables_kept p p' \<and> fileuri_kept_or_appended cfg uri p p'"
proof -
  note P = prepared_refl prepared_fileuri prepared_msymbols [OF prepared_refl]
           prepared_msymbols [OF prepared_fileuri]
  note K = P [THEN prepared_kept]
  note A = AddClass_oom_path [OF _ _ prepared_refl] AddClass_oom_path [OF _ _ prepared_fileuri]
  show ?thesis
    using run r unfolding h64program_AddClass_def Let_def
    by (auto split: prod.splits bool.splits option.splits sum.splits if_splits
        intro: K [THEN conjunct1] K [THEN conjunct2, THEN conjunct1]
               A [THEN conjunct1] A [THEN conjunct2])
qed


lemma RegisterCFunction_oom_path:
  assumes sym: "RegisterCFunction_symbol cfg p2 mi name arg_count arg_kwarg_name cls junk orc
                = Inr (False, p3, orc')"
    and ms: "get_msymbols p1 mp lib orcA = Inr (Some mi, p2, orcB)"
    and prep: "prepared cfg uri p p1"
  shows "tables_kept p (funcsymboloom p3 name mi)
         \<and> fileuri_kept_or_appended cfg uri p (funcsymboloom p3 name mi)"
proof -
  have mi: "mi < length (modules (symbols p2))" using msymbols_frame [OF ms] by simp
  note f = RegisterCFunction_symbol_frame [OF sym mi]
  have mi3: "mi < length (modules (symbols p3))" using f mi by simp
  note g = funcsymboloom_frame [OF mi3, of name]
  show ?thesis
    by (rule prepared_maps [OF prepared_msymbols [OF prep ms]])
       (use f g in \<open>simp_all add: class_views_def\<close>)
qed

lemma RegisterCFunction_failure:
  assumes run: "h64program_RegisterCFunction cfg p name fn uri arg_count arg_kwarg_name
                  last_is_multiarg mp lib threadable cls junk orc = Inr (r, p', orc')"
    and r: "r < 0"
  shows "tables_kept p p' \<and> fileuri_kept_or_appended cfg uri p p'"
proof -
  note P = prepared_refl prepared_fileuri prepared_msymbols [OF prepared_refl]
           prepared_msymbols [OF prepared_fileuri]
  note K = P [THEN prepared_kept]
  note A = RegisterCFunction_oom_path [OF _ _ prepared_refl]
           RegisterCFunction_oom_path [OF _ _ prepared_fileuri]
  show ?thesis
    using run r unfolding h64program_RegisterCFunction_def Let_def
    by (auto split: prod.splits bool.splits option.splits sum.splits if_splits
        intro: K [THEN conjunct1] K [THEN conjunct2, THEN conjunct1]
               A [THEN conjunct1] A [THEN conjunct2])
qed

text \<open>
  What every failed registration keeps. Whenever \<open>h64program_AddGlobalvar\<close>,
  \<open>h64program_RegisterCFunction\<close> or \<open>h64program_AddClass\<close> returns a negative
  id, the functions, the globals, the classes and the symbol tables of the
  modules are as before, and the list of file URIs is as before or has the
  normalized form of the given URI appended; a module record may have been
  created. After a failed \<open>h64program_AddGlobalvar\<close> the module records that
  existed, name maps included, are as before. The name maps and the id maps
  after a failed \<open>h64program_RegisterCFunction\<close> or \<open>h64program_AddClass\<close> are
  not among the things kept: see the last result of this section.
\<close>

lemma failed_registration_keeps_tables:
  assumes "run_registration cfg p reg orc = Inr (r, p', orc')" "r < 0"
  shows "tables_kept p p' \<and> fileuri_kept_or_appended cfg (registration_fileuri reg) p p'
         \<and> (registration_is_AddGlobalvar reg \<longrightarrow>
              take (length (modules (symbols p))) (modules (symbols p')) = modules (symbols p))"
  using assms AddGlobalvar_failure AddClass_failure RegisterCFunction_failure
  by (cases reg) auto

lemma example_AddGlobalvar_fails:
  "h64program_AddGlobalvar example_config empty_program ''g'' False (Some ''file:///a.h64'')
     None None [True, True, False]
   = Inr (-1, example_fileuri_program, [])"
  by (simp add: h64program_AddGlobalvar_def bytecode_fileuriindex_def fileuri_search_def
      get_msymbols_def h64debugsymbols_GetBuiltinModule_def example_config_def
      example_fileuri_program_def empty_program_def empty_symbols_def)

lemma failed_registration_keeps_tables_example:
  "run_registration example_config empty_program
     (Reg_AddGlobalvar ''g'' False (Some ''file:///a.h64'') None None) [True, True, False]
     = Inr (-1, example_fileuri_program, [])
   \<and> tables_kept empty_program example_fileuri_program
   \<and> fileuri_kept_or_appended example_config (Some ''file:///a.h64'')
        empty_program example_fileuri_program
   \<and> modules (symbols example_fileuri_program) = modules (symbols empty_program)"
proof -
  have run: "run_registration example_config empty_program
     (Reg_AddGlobalvar ''g'' False (Some ''file:///a.h64'') None None) [True, True, False]
     = Inr (-1, example_fileuri_program, [])"
    using example_AddGlobalvar_fails by simp
  from failed_registration_keeps_tables [OF run] run
  show ?thesis by (simp add: example_fileuri_program_def empty_program_def empty_symbols_def)
qed

text \<open>
  No registration takes back the file URI that \<open>bytecode_fileuriindex\<close> has
  added: \<open>h64program_AddGlobalvar\<close> with a file URI, when the \<open>realloc\<close> of the
  module's symbol table fails, returns -1 and leaves the URI in the list of
  file URIs.
\<close>

lemma failed_AddGlobalvar_changes_fileuri_list:
  "h64program_AddGlobalvar example_config empty_program ''g'' False (Some ''file:///a.h64'')
     None None [True, True, False]
   = Inr (-1, example_fileuri_program, [])
   \<and> fileuri (symbols empty_program) = []
   \<and> fileuri (symbols example_fileuri_program) = [''file:///a.h64'']"
  using example_AddGlobalvar_fails
  by (simp add: example_fileuri_program_def empty_program_def empty_symbols_def)

lemmas example_register_eval =
  h64program_RegisterHorse64Function_def h64program_RegisterCFunction_def
  RegisterCFunction_cfunclookup_def RegisterCFunction_symbol_def funcsymboloom_def
  h64program_AddClass_def AddClass_symbol_def classsymboloom_def
  get_msymbols_def h64debugsymbols_GetBuiltinModule_def hash_MapSet_def hash_MapUnset_def
  set_module_def example_config_def empty_program_def empty_symbols_def Let_def numeral_eq_Suc

text \<open>
  Claim C2. The labels \<open>funcsymboloom\<close> and \<open>classsymboloom\<close> undo more than the
  failed call has done. A function \<open>f\<close> is registered; a second registration
  under the name \<open>f\<close> fails at the \<open>strdup\<close> of the name, before the name map is
  written, and returns -1: the function and its symbol are still there, but
  the entry of \<open>f\<close> in the module's name map is gone. A class is registered in
  a program without functions; the registration of a second class fails at
  the \<open>strdup\<close> of its name and returns -1: the entries of the first class in
  the two class id maps, which \<open>classsymboloom\<close> removes under \<open>p->func_count\<close>,
  are gone.
\<close>

theorem failed_registration_unsets_earlier_entries:
  "h64program_RegisterHorse64Function example_config empty_program (Some ''f'') None 0 None
     False None None (-1) example_junk []
     = Inr (0, example_f_program, [])
   \<and> func_name_to_entry (modules (symbols example_f_program) ! 0) ''f'' = Some 0
   \<and> h64program_RegisterHorse64Function example_config example_f_program (Some ''f'') None 0
       None False None None (-1) example_junk [True, True, False]
     = Inr (-1, example_f_program_failed, [])
   \<and> map fs_name (func_symbols (modules (symbols example_f_program_failed) ! 0)) = [Some ''f'']
   \<and> length (func example_f_program_failed) = 1
   \<and> func_name_to_entry (modules (symbols example_f_program_failed) ! 0) ''f'' = None
   \<and> h64program_AddClass example_config empty_program ''C'' None None None []
     = Inr (0, example_class_program, [])
   \<and> class_id_to_module_symbols_index (symbols example_class_program) 0 = Some 0
   \<and> class_id_to_module_symbols_class_subindex (symbols example_class_program) 0 = Some 0
   \<and> h64program_AddClass example_config example_class_program ''B'' None None None
       [True, True, False]
     = Inr (-1, example_class_program_failed, [])
   \<and> length (classes example_class_program_failed) = 1
   \<and> class_id_to_module_symbols_index (symbols example_class_program_failed) 0 = None
   \<and> class_id_to_module_symbols_class_subindex (symbols example_class_program_failed) 0 = None"
  by (simp add: example_f_program_def example_f_program_failed_def example_class_program_def
      example_class_program_failed_def example_register_eval)

section \<open>Results for compiler/scoperesolver.c\<close>

subsection \<open>The main function index\<close>













lemma valid_expr_program [simp]:
  "valid_expr (pr\<lparr>program := p\<rparr>) a e = valid_expr pr a e"
  unfolding valid_expr_def by simp

lemma the_expr_program [simp]:
  "the_expr (pr\<lparr>program := p\<rparr>) a e = the_expr pr a e"
  unfolding the_expr_def by simp



















subsection \<open>The recursive part of scoperesolver_BuildASTGlobalStorage\<close>







lemma ast_frame_fields [simp]:
  "ast_frame a (pr\<lparr>program := p\<rparr>) pr' = ast_frame a pr pr'"
  "ast_frame a pr (pr'\<lparr>program := p\<rparr>) = ast_frame a pr pr'"
  "ast_frame a (pr\<lparr>pr_resultmsg := m\<rparr>) pr' = ast_frame a pr pr'"
  "ast_frame a pr (pr'\<lparr>pr_resultmsg := m\<rparr>) = ast_frame a pr pr'"
  unfolding ast_frame_def by simp_all



lemma set_ast_program [simp]:
  "program (set_ast pr a x) = program pr"
  unfolding set_ast_def by simp

lemma set_expr_program [simp]:
  "program (set_expr pr a e x) = program pr"
  unfolding set_expr_def by simp


























lemma kept_fields [simp]:
  "built_kept (pr\<lparr>pr_resultmsg := m\<rparr>) pr' = built_kept pr pr'"
  "built_kept pr (pr'\<lparr>pr_resultmsg := m\<rparr>) = built_kept pr pr'"
  "new_complete (pr\<lparr>pr_resultmsg := m\<rparr>) pr' = new_complete pr pr'"
  "new_complete pr (pr'\<lparr>pr_resultmsg := m\<rparr>) = new_complete pr pr'"
  unfolding built_kept_def new_complete_def by simp_all




lemma build_step_fields [simp]:
  "build_step a (pr\<lparr>program := p\<rparr>) pr' = build_step a pr pr'"
  "build_step a pr (pr'\<lparr>program := p\<rparr>) = build_step a pr pr'"
  unfolding build_step_def by simp_all







lemma build_step_exprs:
  "build_step a pr pr' \<Longrightarrow> length (exprs (asts pr' ! a)) = length (exprs (asts pr ! a))"
  unfolding build_step_def exprs_kept_def by simp



















section \<open>Results for vmexec.c\<close>

text \<open>
  With the variable \<open>heap\<close> as \<open>vmthread_RunFunction\<close> leaves it, \<open>setconst\<close> of a
  preallocated string never reaches the next instruction.
\<close>

lemma inst_setconst_preallocstr_no_result:
  "inst_setconst vmthread Indeterminate slot (H64VALTYPE_CONSTPREALLOCSTR payload) junk orc
   \<in> {Inl VMNullPointer, Inl VMOutOfBounds, Inl VMIndeterminateValue}"
  unfolding inst_setconst_def by (simp split: option.splits)

text \<open>
  Claim C5. The claim expects that \<open>setconst\<close> of the string \<open>hello\<close> to slot 0
  of a stack with one empty slot leaves in the slot a GC value that refers to
  a new string \<open>hello\<close> of the heap with an external reference count of 1.
  \<open>vmthread_RunFunction\<close> passes the indeterminate \<open>heap\<close> to \<open>poolalloc_malloc\<close>
  instead.
\<close>

theorem setconst_preallocstr_uses_indeterminate_heap:
  "vmthread_RunFunction (Some example_vmthread) example_setconst_program 0 True
     example_gcvalue []
   = Inl VMIndeterminateValue"
  by (simp add: vmthread_RunFunction_def example_vmthread_def example_setconst_program_def
      empty_program_def inst_setconst_def STACK_ENTRY_def)

end
